theory Spec2Isabelle
  imports Main "HOL-Library.Word"
begin

section \<open>The upload endpoint\<close>

text \<open>
  The working code of the repository is an HTTP handler, registered as
  \<^verbatim>\<open>app.http('storage', ...)\<close>: it reads a multipart form, validates it and forwards the
  file to a blob store. The handler modelled first is that of
  \<^verbatim>\<open>src/api/storage/_index.js\<close>; the shorter one of \<^verbatim>\<open>src/api/index.js\<close> follows it.
  The multipart parser, the blob store client, the file system, the process environment
  and the clock are collaborators outside the repository: they are gathered in a record
  \<open>world\<close> whose fields give the result of each call, a thrown \<^verbatim>\<open>Error\<close> being
  \<open>Inl\<close>. A handler returns its response together with the list of the calls with an
  effect that it issued, in order. The \<^verbatim>\<open>context.log\<close> lines are left out.
\<close>

subsection \<open>JavaScript values\<close>

text \<open>
  A JavaScript string is a \<open>string\<close>, one \<open>char\<close> for each code unit below 256. A
  property that may be \<^verbatim>\<open>undefined\<close> is an \<open>option\<close>; it is truthy when it is a
  non-empty string. A \<^verbatim>\<open>Buffer\<close> is a list of bytes.
\<close>

type_synonym buffer = "8 word list"

datatype exn = Error (exn_message: string)

definition truthy :: "string option \<Rightarrow> bool" where
  "truthy v = (case v of None \<Rightarrow> False | Some s \<Rightarrow> s \<noteq> [])"

text \<open>\<^verbatim>\<open>a || b\<close> on two such values.\<close>

definition js_or :: "string option \<Rightarrow> string option \<Rightarrow> string option" where
  "js_or a b = (if truthy a then a else b)"

text \<open>The coercion of a value to a string, as a template literal and \<^verbatim>\<open>RegExp.test\<close>
  apply it.\<close>

definition js_string :: "string option \<Rightarrow> string" where
  "js_string v = (case v of None \<Rightarrow> ''undefined'' | Some s \<Rightarrow> s)"

text \<open>
  A plain object with string values, \<^verbatim>\<open>{}\<close> filled by \<^verbatim>\<open>o[k] = v\<close>: the map from
  the names of its own properties to their values. The order in which an object lists its
  keys is not modelled.
\<close>

type_synonym js_object = "string \<rightharpoonup> string"

text \<open>
  The assignment \<^verbatim>\<open>o[k] = v\<close> of a string to a property of a plain object. It creates
  or replaces the own property \<open>k\<close>, but for \<^verbatim>\<open>__proto__\<close>: that name is an accessor
  that the object inherits, whose setter ignores a string, so that the object is left as
  it was. The other names that a plain object inherits are writable data properties, and
  the assignment shadows them by an own property.
\<close>

definition js_set :: "js_object \<Rightarrow> string \<Rightarrow> string \<Rightarrow> js_object" where
  "js_set obj k v = (if k = ''__proto__'' then obj else obj(k \<mapsto> v))"

text \<open>\<^verbatim>\<open>{ ...a, ...b }\<close>: the own properties of \<open>b\<close> are defined onto those of
  \<open>a\<close>.\<close>

definition spread :: "js_object \<Rightarrow> js_object \<Rightarrow> js_object" where
  "spread a b = a ++ b"

text \<open>The white space and line terminators that \<^verbatim>\<open>String.prototype.trim\<close> strips, among
  the code units below 256: TAB, LF, VT, FF, CR, SP and NBSP.\<close>

definition is_ws :: "char \<Rightarrow> bool" where
  "is_ws c = ((of_char c :: nat) \<in> {9, 10, 11, 12, 13, 32, 160})"

definition trim :: "string \<Rightarrow> string" where
  "trim s = rev (dropWhile is_ws (rev (dropWhile is_ws s)))"

text \<open>Case folding of the ASCII letters, which is all that the \<^verbatim>\<open>i\<close> flag of a
  regular expression over ASCII letters and \<^verbatim>\<open>toLowerCase\<close> on a matched extension
  need.\<close>

definition lower :: "char \<Rightarrow> char" where
  "lower c = (if 65 \<le> (of_char c :: nat) \<and> (of_char c :: nat) \<le> 90
              then char_of (of_char c + (32 :: nat)) else c)"

definition toLowerCase :: "string \<Rightarrow> string" where
  "toLowerCase s = map lower s"

definition endsWith :: "string \<Rightarrow> string \<Rightarrow> bool" where
  "endsWith s suf = (length suf \<le> length s \<and> drop (length s - length suf) s = suf)"

text \<open>\<^verbatim>\<open>/\.(xlsx|xls)$/i.test(name)\<close>: the name ends in \<^verbatim>\<open>.xlsx\<close> or \<^verbatim>\<open>.xls\<close>, in any
  mix of cases.\<close>

definition isExcelFile :: "string \<Rightarrow> bool" where
  "isExcelFile fname =
     (endsWith (toLowerCase fname) ''.xlsx'' \<or> endsWith (toLowerCase fname) ''.xls'')"

text \<open>\<^verbatim>\<open>s.split('.').pop()\<close>: what follows the last dot, the whole string when it has
  none.\<close>

definition split_pop :: "string \<Rightarrow> string" where
  "split_pop s = rev (takeWhile (\<lambda>c. c \<noteq> CHR ''.'') (rev s))"

text \<open>\<^verbatim>\<open>s.replace(/[:.]/g, '-')\<close>.\<close>

definition replace_colon_dot :: "string \<Rightarrow> string" where
  "replace_colon_dot s = map (\<lambda>c. if c = CHR '':'' \<or> c = CHR ''.'' then CHR ''-'' else c) s"

subsection \<open>The clock\<close>

text \<open>
  A \<^verbatim>\<open>Date\<close> is the instant it holds, in the UTC fields that \<^verbatim>\<open>toISOString\<close> prints.
  The format is \<^verbatim>\<open>YYYY-MM-DDTHH:mm:ss.sssZ\<close>; a year above 9999 is printed with a sign
  and six digits. Years before 0 are not modelled.
\<close>

record date =
  year :: nat
  month :: nat
  day :: nat
  hours :: nat
  minutes :: nat
  seconds :: nat
  milliseconds :: nat

definition digit :: "nat \<Rightarrow> char" where
  "digit d = char_of (48 + d mod 10)"

text \<open>The last \<open>w\<close> decimal digits of \<open>n\<close>, which is \<open>n\<close> padded with zeros when
  \<open>n < 10 ^ w\<close>.\<close>

fun pad :: "nat \<Rightarrow> nat \<Rightarrow> string" where
  "pad 0 n = []"
| "pad (Suc w) n = pad w (n div 10) @ [digit n]"

definition year_string :: "date \<Rightarrow> string" where
  "year_string d = (if year d \<le> 9999 then pad 4 (year d) else ''+'' @ pad 6 (year d))"

definition toISOString :: "date \<Rightarrow> string" where
  "toISOString d =
     year_string d
     @ ''-'' @ pad 2 (month d) @ ''-'' @ pad 2 (day d)
     @ ''T'' @ pad 2 (hours d) @ '':'' @ pad 2 (minutes d) @ '':'' @ pad 2 (seconds d)
     @ ''.'' @ pad 3 (milliseconds d) @ ''Z''"


subsection \<open>Requests, parts, responses\<close>

text \<open>A part as the multipart parser returns it.\<close>

record part =
  name :: "string option"
  filename :: "string option"
  type :: "string option"
  data :: buffer

text \<open>The request: \<^verbatim>\<open>request.headers.get\<close> and the outcome of
  \<^verbatim>\<open>await request.arrayBuffer()\<close>.\<close>

record request =
  headers_get :: "string \<Rightarrow> string option"
  arrayBuffer :: "exn + buffer"

text \<open>The \<^verbatim>\<open>jsonBody\<close> of a response; a key that the object does not have is
  \<open>None\<close>.\<close>

record json_body =
  success :: "bool option"
  error :: "string option"
  details :: "string option"
  missingFields :: "string list option"
  message :: "string option"
  fileName :: "string option"
  originalFileName :: "string option"
  url :: "string option"
  metadata :: "js_object option"
  uploadedAt :: "string option"

record response =
  status :: nat
  jsonBody :: json_body

text \<open>The body \<^verbatim>\<open>{ success: false, error: msg }\<close>, to which the handler adds
  \<^verbatim>\<open>details\<close> or \<^verbatim>\<open>missingFields\<close>.\<close>

definition failure :: "string \<Rightarrow> json_body" where
  "failure msg =
     \<lparr>success = Some False, error = Some msg, details = None, missingFields = None,
      message = None, fileName = None, originalFileName = None, url = None,
      metadata = None, uploadedAt = None\<rparr>"

subsection \<open>The collaborators\<close>

text \<open>
  \<^item> \<open>getBoundary\<close>, \<open>Parse\<close>: the \<^verbatim>\<open>parse-multipart\<close> package;
  \<^item> \<open>toString\<close>: \<^verbatim>\<open>Buffer.prototype.toString\<close>, the decoding of a payload as text;
  \<^item> \<open>env_AzureWebJobsStorage\<close>: \<^verbatim>\<open>process.env.AzureWebJobsStorage\<close>;
  \<^item> \<open>existsSync\<close>: whether \<^verbatim>\<open>local.settings.json\<close> exists;
  \<^item> \<open>localSettings\<close>: reading and parsing that file and taking
    \<^verbatim>\<open>Values?.AzureWebJobsStorage\<close> of it;
  \<^item> \<open>fromConnectionString\<close>, \<open>createIfNotExists\<close> (by container name),
    \<open>uploadData\<close> (by blob name, bytes, content type and metadata) and \<open>blob_url\<close>
    (by blob name): the blob store client;
  \<^item> \<open>now\<close>: the \<open>i\<close>-th \<^verbatim>\<open>new Date()\<close> of the request.
\<close>

record world =
  getBoundary :: "string \<Rightarrow> string option"
  Parse :: "buffer \<Rightarrow> string \<Rightarrow> exn + part list"
  toString :: "buffer \<Rightarrow> string"
  env_AzureWebJobsStorage :: "string option"
  existsSync :: bool
  localSettings :: "exn + string option"
  fromConnectionString :: "string option \<Rightarrow> exn + unit"
  createIfNotExists :: "string \<Rightarrow> exn + unit"
  uploadData :: "string \<Rightarrow> buffer \<Rightarrow> string \<Rightarrow> js_object \<Rightarrow> exn + unit"
  blob_url :: "string \<Rightarrow> string"
  now :: "nat \<Rightarrow> date"

text \<open>The calls with an effect, as the handler issues them.\<close>

datatype event =
    ArrayBuffer
  | MultipartParse buffer string
  | ExistsSync
  | ReadFileSync
  | FromConnectionString "string option"
  | CreateIfNotExists string
  | UploadData string buffer string js_object

text \<open>The upload calls among the calls: blob name, bytes, content type and metadata of
  each.\<close>

fun uploads :: "event list \<Rightarrow> (string \<times> buffer \<times> string \<times> js_object) list" where
  "uploads [] = []"
| "uploads (UploadData k b t m # es) = (k, b, t, m) # uploads es"
| "uploads (e # es) = uploads es"

subsection \<open>The handler\<close>

definition requiredFields :: "string list" where
  "requiredFields =
     [''company'', ''business_unit'', ''location'', ''time_period'', ''esg_topic'',
      ''esg_metric'', ''unit'']"

definition containerName :: string where
  "containerName = ''upload''"

definition contentTypeMap :: js_object where
  "contentTypeMap =
     map_of
       [(''xlsx'', ''application/vnd.openxmlformats-officedocument.spreadsheetml.sheet''),
        (''xls'', ''application/vnd.ms-excel'')]"

text \<open>The loop that gets the metadata fields into the object \<^verbatim>\<open>fields\<close>, here
  \<open>flds\<close>: a part with no filename and with a name
  binds its name to its payload as text.\<close>

definition collect_fields :: "(buffer \<Rightarrow> string) \<Rightarrow> part list \<Rightarrow> js_object" where
  "collect_fields decode parts =
     foldl (\<lambda>flds part.
              if \<not> truthy (filename part) \<and> truthy (name part)
              then js_set flds (js_string (name part)) (decode (data part))
              else flds)
       Map.empty parts"

text \<open>The filter of the required fields:
  \<^verbatim>\<open>!fields[field] || fields[field].trim() === ''\<close>.\<close>

definition field_missing :: "js_object \<Rightarrow> string \<Rightarrow> bool" where
  "field_missing flds field =
     (case flds field of
        None \<Rightarrow> True
      | Some v \<Rightarrow> v = [] \<or> trim v = [])"

text \<open>The name of the blob:
  \<^verbatim>\<open>`${fields.company}_${timestamp}.${fileExtension}`\<close>.\<close>

definition uniqueFilename :: "js_object \<Rightarrow> date \<Rightarrow> string \<Rightarrow> string" where
  "uniqueFilename flds d fname =
     js_string (flds ''company'') @ ''_'' @ replace_colon_dot (toISOString d)
     @ ''.'' @ split_pop fname"

definition fileContentType :: "string \<Rightarrow> string" where
  "fileContentType fileExtension =
     js_string (js_or (contentTypeMap (toLowerCase fileExtension))
                      (Some ''application/octet-stream''))"

text \<open>The connection string: the environment first, then the local settings file when
  it exists.\<close>

definition resolve_connectionString :: "world \<Rightarrow> (exn + string option) \<times> event list" where
  "resolve_connectionString w =
     (if truthy (env_AzureWebJobsStorage w) then (Inr (env_AzureWebJobsStorage w), [])
      else if existsSync w then
        (case localSettings w of
           Inl e \<Rightarrow> (Inl e, [ExistsSync, ReadFileSync])
         | Inr v \<Rightarrow> (Inr v, [ExistsSync, ReadFileSync]))
      else (Inr (env_AzureWebJobsStorage w), [ExistsSync]))"

text \<open>The upload to the blob store, from \<^verbatim>\<open>BlobServiceClient.fromConnectionString\<close> to
  the success response.\<close>

definition upload_file ::
  "world \<Rightarrow> part \<Rightarrow> js_object \<Rightarrow> string option \<Rightarrow> (exn + response) \<times> event list" where
  "upload_file w filePart flds connectionString =
     (case fromConnectionString w connectionString of
        Inl e \<Rightarrow> (Inl e, [FromConnectionString connectionString])
      | Inr _ \<Rightarrow>
        (case createIfNotExists w containerName of
           Inl e \<Rightarrow>
             (Inl e, [FromConnectionString connectionString, CreateIfNotExists containerName])
         | Inr _ \<Rightarrow>
           (let fname = js_string (filename filePart);
                fileExtension = split_pop fname;
                blobName = uniqueFilename flds (now w 0) fname;
                blobContentType = fileContentType fileExtension;
                blobMetadata =
                  spread [''originalFilename'' \<mapsto> fname,
                          ''uploadedAt'' \<mapsto> toISOString (now w 1)] flds;
                calls = [FromConnectionString connectionString,
                         CreateIfNotExists containerName,
                         UploadData blobName (data filePart) blobContentType blobMetadata]
            in case uploadData w blobName (data filePart) blobContentType blobMetadata of
                 Inl e \<Rightarrow> (Inl e, calls)
               | Inr _ \<Rightarrow>
                   (Inr \<lparr>status = 200,
                         jsonBody =
                           \<lparr>success = Some True, error = None, details = None,
                            missingFields = None,
                            message = Some ''File uploaded successfully'',
                            fileName = Some blobName,
                            originalFileName = Some fname,
                            url = Some (blob_url w blobName),
                            metadata = Some flds,
                            uploadedAt = Some (toISOString (now w 2))\<rparr>\<rparr>,
                    calls))))"

text \<open>The handler from the selection of the file part on.\<close>

definition process_parts :: "world \<Rightarrow> part list \<Rightarrow> (exn + response) \<times> event list" where
  "process_parts w parts =
     (case find (\<lambda>p. truthy (filename p)) parts of
        None \<Rightarrow> (Inr \<lparr>status = 400, jsonBody = failure ''No file uploaded''\<rparr>, [])
      | Some filePart \<Rightarrow>
          if \<not> isExcelFile (js_string (filename filePart))
          then (Inr \<lparr>status = 400,
                     jsonBody = failure
                       ''Invalid file type. Only .xlsx and .xls files are allowed.''\<rparr>, [])
          else
            (let flds = collect_fields (toString w) parts;
                 missing = filter (field_missing flds) requiredFields
             in if length missing > 0
                then (Inr \<lparr>status = 400,
                           jsonBody = (failure ''Missing required fields'')
                             \<lparr>missingFields := Some missing\<rparr>\<rparr>, [])
                else
                  (case resolve_connectionString w of
                     (Inl e, calls) \<Rightarrow> (Inl e, calls)
                   | (Inr connectionString, calls) \<Rightarrow>
                       if \<not> truthy connectionString
                       then (Inr \<lparr>status = 500,
                                  jsonBody = failure
                                    ''Azure Storage configuration not found''\<rparr>, calls)
                       else
                         (case upload_file w filePart flds connectionString of
                            (r, calls') \<Rightarrow> (r, calls @ calls')))))"

text \<open>The body of the \<^verbatim>\<open>try\<close>: \<open>Inl\<close> is an exception that reaches the
  \<^verbatim>\<open>catch\<close>.\<close>

definition handler_try :: "world \<Rightarrow> request \<Rightarrow> (exn + response) \<times> event list" where
  "handler_try w request =
     (let contentType =
            js_or (headers_get request ''content-type'') (headers_get request ''Content-Type'')
      in if \<not> truthy contentType
         then (Inr \<lparr>status = 400, jsonBody = failure ''Missing content-type header''\<rparr>, [])
         else
           (let boundary = getBoundary w (js_string contentType)
            in if \<not> truthy boundary
               then (Inr \<lparr>status = 400,
                          jsonBody = failure
                            ''Malformed content-type header: boundary not found''\<rparr>, [])
               else
                 (case arrayBuffer request of
                    Inl e \<Rightarrow> (Inl e, [ArrayBuffer])
                  | Inr bodyBuffer \<Rightarrow>
                      (case Parse w bodyBuffer (js_string boundary) of
                         Inl parseError \<Rightarrow>
                           (Inr \<lparr>status = 400,
                                 jsonBody = (failure ''Failed to parse multipart data'')
                                   \<lparr>details := Some (exn_message parseError)\<rparr>\<rparr>,
                            [ArrayBuffer, MultipartParse bodyBuffer (js_string boundary)])
                       | Inr parts \<Rightarrow>
                           (case process_parts w parts of
                              (r, calls) \<Rightarrow>
                                (r, [ArrayBuffer,
                                     MultipartParse bodyBuffer (js_string boundary)]
                                    @ calls))))))"

text \<open>The \<^verbatim>\<open>catch\<close> block.\<close>

definition internal_error :: "exn \<Rightarrow> response" where
  "internal_error e =
     \<lparr>status = 500,
      jsonBody = (failure ''Internal server error'')\<lparr>details := Some (exn_message e)\<rparr>\<rparr>"

text \<open>The handler: the response, and the calls it issued.\<close>

definition handler :: "world \<Rightarrow> request \<Rightarrow> response \<times> event list" where
  "handler w request =
     (case handler_try w request of
        (Inl e, calls) \<Rightarrow> (internal_error e, calls)
      | (Inr r, calls) \<Rightarrow> (r, calls))"

subsection \<open>The handler of \<^verbatim>\<open>src/api/index.js\<close>\<close>

text \<open>
  \<^verbatim>\<open>src/api/index.js\<close> registers a handler under the same name. It answers with a
  \<^verbatim>\<open>body\<close> that is a string or an object, checks neither the file type nor the
  fields, takes the connection string from the environment only, and its \<^verbatim>\<open>try\<close> holds
  the calls of the blob store alone: an exception of an earlier call leaves the handler,
  which is \<open>Inl\<close> here. The blob is named by the file's own name, and the upload has
  no metadata.
\<close>

record index_response =
  index_status :: nat
  index_body :: "string + json_body"

definition index_collect_fields :: "(buffer \<Rightarrow> string) \<Rightarrow> part list \<Rightarrow> js_object" where
  "index_collect_fields decode parts =
     foldl (\<lambda>flds part.
              if \<not> truthy (filename part)
              then js_set flds (js_string (name part)) (decode (data part))
              else flds)
       Map.empty parts"

definition index_upload :: "world \<Rightarrow> part \<Rightarrow> js_object \<Rightarrow> (exn + index_response) \<times> event list" where
  "index_upload w filePart flds =
     (case fromConnectionString w (env_AzureWebJobsStorage w) of
        Inl e \<Rightarrow> (Inl e, [FromConnectionString (env_AzureWebJobsStorage w)])
      | Inr _ \<Rightarrow>
        (case createIfNotExists w containerName of
           Inl e \<Rightarrow>
             (Inl e, [FromConnectionString (env_AzureWebJobsStorage w),
                      CreateIfNotExists containerName])
         | Inr _ \<Rightarrow>
           (let fname = js_string (filename filePart);
                blobContentType =
                  js_string (js_or (type filePart) (Some ''application/octet-stream''));
                calls = [FromConnectionString (env_AzureWebJobsStorage w),
                         CreateIfNotExists containerName,
                         UploadData fname (data filePart) blobContentType Map.empty]
            in case uploadData w fname (data filePart) blobContentType Map.empty of
                 Inl e \<Rightarrow> (Inl e, calls)
               | Inr _ \<Rightarrow>
                   (Inr \<lparr>index_status = 200,
                         index_body = Inr
                           \<lparr>success = None, error = None, details = None,
                            missingFields = None,
                            message = Some ''File uploaded successfully'',
                            fileName = Some fname,
                            originalFileName = None,
                            url = Some (blob_url w fname),
                            metadata = Some flds,
                            uploadedAt = None\<rparr>\<rparr>,
                    calls))))"

definition index_handler :: "world \<Rightarrow> request \<Rightarrow> (exn + index_response) \<times> event list" where
  "index_handler w request =
     (let contentType =
            js_or (headers_get request ''content-type'') (headers_get request ''Content-Type'')
      in if \<not> truthy contentType
         then (Inr \<lparr>index_status = 400, index_body = Inl ''Missing content-type header''\<rparr>, [])
         else
           (let boundary = getBoundary w (js_string contentType)
            in if \<not> truthy boundary
               then (Inr \<lparr>index_status = 400,
                          index_body = Inl ''Malformed content-type header: boundary not found''\<rparr>,
                     [])
               else
                 (case arrayBuffer request of
                    Inl e \<Rightarrow> (Inl e, [ArrayBuffer])
                  | Inr bodyBuffer \<Rightarrow>
                      (case Parse w bodyBuffer (js_string boundary) of
                         Inl e \<Rightarrow>
                           (Inl e, [ArrayBuffer, MultipartParse bodyBuffer (js_string boundary)])
                       | Inr parts \<Rightarrow>
                           (case find (\<lambda>p. truthy (filename p)) parts of
                              None \<Rightarrow>
                                (Inr \<lparr>index_status = 400, index_body = Inl ''No file uploaded''\<rparr>,
                                 [ArrayBuffer, MultipartParse bodyBuffer (js_string boundary)])
                            | Some filePart \<Rightarrow>
                                (case index_upload w filePart
                                        (index_collect_fields (toString w) parts) of
                                   (Inl uploadErr, calls) \<Rightarrow>
                                     (Inr \<lparr>index_status = 500,
                                           index_body = Inr
                                             \<lparr>success = None,
                                              error = Some ''Failed to upload file'',
                                              details = Some (exn_message uploadErr),
                                              missingFields = None, message = None,
                                              fileName = None, originalFileName = None,
                                              url = None, metadata = None,
                                              uploadedAt = None\<rparr>\<rparr>,
                                      [ArrayBuffer,
                                       MultipartParse bodyBuffer (js_string boundary)] @ calls)
                                 | (Inr r, calls) \<Rightarrow>
                                     (Inr r,
                                      [ArrayBuffer,
                                       MultipartParse bodyBuffer (js_string boundary)]
                                      @ calls)))))))"

subsection \<open>Notions of the specification\<close>

text \<open>A request that the handler read and parsed into \<open>parts\<close>: it has a content
  type, the content type has a boundary, the body was read, and the parser returned
  \<open>parts\<close> for the body and the boundary.\<close>

definition parsed :: "world \<Rightarrow> request \<Rightarrow> part list \<Rightarrow> bool" where
  "parsed w request parts =
     (let contentType =
            js_or (headers_get request ''content-type'') (headers_get request ''Content-Type'');
          boundary = getBoundary w (js_string contentType)
      in truthy contentType \<and> truthy boundary \<and>
         (case arrayBuffer request of
            Inl e \<Rightarrow> False
          | Inr bodyBuffer \<Rightarrow> Parse w bodyBuffer (js_string boundary) = Inr parts))"

text \<open>A blank value: empty, or white space only.\<close>

definition blank :: "string \<Rightarrow> bool" where
  "blank v = list_all is_ws v"

text \<open>The form fields of a request as submitted: name and text of each part that has a
  name and no filename, in the order of the parts.\<close>

definition form_fields :: "(buffer \<Rightarrow> string) \<Rightarrow> part list \<Rightarrow> (string \<times> string) list" where
  "form_fields decode parts =
     map (\<lambda>p. (js_string (name p), decode (data p)))
       (filter (\<lambda>p. \<not> truthy (filename p) \<and> truthy (name p)) parts)"

text \<open>The file parts of a request: the parts that have a filename.\<close>

definition file_parts :: "part list \<Rightarrow> part list" where
  "file_parts parts = filter (\<lambda>p. truthy (filename p)) parts"

text \<open>All the required fields are present and not blank.\<close>

definition fields_complete :: "js_object \<Rightarrow> bool" where
  "fields_complete flds =
     list_all (\<lambda>k. case flds k of None \<Rightarrow> False | Some v \<Rightarrow> \<not> blank v)
       requiredFields"

text \<open>A valid submission: the request was parsed into \<open>parts\<close>, the handler selected
  \<open>filePart\<close> among them, its name is that of a spreadsheet, and the fields are
  complete.\<close>

definition valid_submission :: "world \<Rightarrow> request \<Rightarrow> part list \<Rightarrow> part \<Rightarrow> bool" where
  "valid_submission w request parts filePart =
     (parsed w request parts
      \<and> find (\<lambda>p. truthy (filename p)) parts = Some filePart
      \<and> isExcelFile (js_string (filename filePart))
      \<and> fields_complete (collect_fields (toString w) parts))"

text \<open>The calls to the blob store among the calls.\<close>

fun store_call :: "event \<Rightarrow> bool" where
  "store_call (FromConnectionString c) = True"
| "store_call (CreateIfNotExists c) = True"
| "store_call (UploadData k b t m) = True"
| "store_call e = False"

subsection \<open>Example requests\<close>

text \<open>The form of the repository's \<^verbatim>\<open>test-multipart\<close> script, with a short payload for
  each field, and a world in which every collaborator succeeds. The example decoder reads a
  byte as the character of that code.\<close>

definition field_part :: "string \<Rightarrow> buffer \<Rightarrow> part" where
  "field_part k v = \<lparr>name = Some k, filename = None, type = None, data = v\<rparr>"

definition file_part :: "string \<Rightarrow> buffer \<Rightarrow> part" where
  "file_part f v = \<lparr>name = Some ''file'', filename = Some f, type = None, data = v\<rparr>"

definition ex_fields :: "part list" where
  "ex_fields =
     [field_part ''company'' [65, 67, 77, 69], field_part ''business_unit'' [73, 84],
      field_part ''location'' [78, 89], field_part ''time_period'' [50, 48, 50, 52],
      field_part ''esg_topic'' [69], field_part ''esg_metric'' [70],
      field_part ''unit'' [107, 87, 104]]"

definition ex_two_files :: "part list" where
  "ex_two_files =
     ex_fields @ [file_part ''report.xlsx'' [80, 75, 3, 4], file_part ''second.xls'' [208, 207]]"

definition ex_wrong_first :: "part list" where
  "ex_wrong_first =
     ex_fields @ [file_part ''notes.txt'' [104, 105], file_part ''report.xlsx'' [80, 75, 3, 4]]"

definition ex_text_file :: "part list" where
  "ex_text_file = ex_fields @ [file_part ''notes.txt'' [104, 105]]"

definition ascii :: "buffer \<Rightarrow> string" where
  "ascii bs = map (\<lambda>b. char_of (unat b)) bs"

definition ex_incomplete :: "part list" where
  "ex_incomplete =
     [field_part ''company'' [65, 67, 77, 69], field_part ''location'' [32, 9],
      file_part ''report.xlsx'' [80, 75, 3, 4]]"

definition ex_no_file :: "part list" where
  "ex_no_file = [field_part ''company'' [65, 67, 77, 69]]"

definition ex_parts :: "part list" where
  "ex_parts = ex_fields @ [file_part ''report.xlsx'' [80, 75, 3, 4]]"

definition ex_date :: "nat \<Rightarrow> date" where
  "ex_date i =
     \<lparr>year = 2025, month = 6, day = 26, hours = 22, minutes = 9, seconds = 19,
      milliseconds = i\<rparr>"

definition ex_world :: world where
  "ex_world =
     \<lparr>getBoundary =
        (\<lambda>h. if h = ''multipart/form-data; boundary=XX'' then Some ''XX'' else Some []),
      Parse = (\<lambda>b s. Inr ex_parts),
      toString = ascii,
      env_AzureWebJobsStorage = Some ''UseDevelopmentStorage=true'',
      existsSync = False,
      localSettings = Inr None,
      fromConnectionString = (\<lambda>c. Inr ()),
      createIfNotExists = (\<lambda>c. Inr ()),
      uploadData = (\<lambda>k b t m. Inr ()),
      blob_url = (\<lambda>k. ''http://127.0.0.1:10000/devstoreaccount1/upload/'' @ k),
      now = ex_date\<rparr>"

definition ex_request :: request where
  "ex_request =
     \<lparr>headers_get =
        (\<lambda>h. if h = ''content-type'' then Some ''multipart/form-data; boundary=XX'' else None),
      arrayBuffer = Inr [45, 45, 88, 88]\<rparr>"

text \<open>Variants of the example: forms with no file and with fields missing, a world with
  no connection string, a world whose settings file cannot be parsed, a world whose blob
  store rejects the upload, a world whose clock is five milliseconds ahead, forms with two
  files, a form with a field named \<^verbatim>\<open>__proto__\<close>, a form that submits a name twice
  with a part that has no name in between, and a form that submits the name
  \<^verbatim>\<open>__proto__\<close> twice.\<close>

definition ex_world_no_file :: world where
  "ex_world_no_file = ex_world\<lparr>Parse := \<lambda>b s. Inr ex_no_file\<rparr>"

definition ex_world_incomplete :: world where
  "ex_world_incomplete = ex_world\<lparr>Parse := \<lambda>b s. Inr ex_incomplete\<rparr>"

definition ex_world_no_credential :: world where
  "ex_world_no_credential = ex_world\<lparr>env_AzureWebJobsStorage := None\<rparr>"

definition ex_world_store_down :: world where
  "ex_world_store_down = ex_world\<lparr>uploadData := \<lambda>k b t m. Inl (Error ''quota exceeded'')\<rparr>"



definition ex_world_two_files :: world where
  "ex_world_two_files = ex_world\<lparr>Parse := \<lambda>b s. Inr ex_two_files\<rparr>"

definition ex_world_wrong_first :: world where
  "ex_world_wrong_first = ex_world\<lparr>Parse := \<lambda>b s. Inr ex_wrong_first\<rparr>"

definition ex_with_proto :: "part list" where
  "ex_with_proto = field_part ''__proto__'' [120] # ex_parts"

definition ex_world_with_proto :: world where
  "ex_world_with_proto = ex_world\<lparr>Parse := \<lambda>b s. Inr ex_with_proto\<rparr>"



section \<open>Properties\<close>

subsection \<open>The handler after the parse\<close>

lemma uploads_append: "uploads (xs @ ys) = uploads xs @ uploads ys"
  by (induction xs rule: uploads.induct) simp_all

lemma handler_parsed:
  assumes "parsed w request parts"
  shows "fst (handler w request)
           = (case fst (process_parts w parts) of Inl e \<Rightarrow> internal_error e | Inr r \<Rightarrow> r)"
    and "uploads (snd (handler w request)) = uploads (snd (process_parts w parts))"
  using assms
  by (auto simp: parsed_def handler_def handler_try_def Let_def split: sum.splits prod.splits)

lemma handler_calls:
  assumes "parsed w request parts"
  shows "\<exists>b s. snd (handler w request)
                 = [ArrayBuffer, MultipartParse b s] @ snd (process_parts w parts)"
  using assms
  by (auto simp: parsed_def handler_def handler_try_def Let_def split: sum.splits prod.splits)

lemma process_parts_no_file:
  assumes "find (\<lambda>p. truthy (filename p)) parts = None"
  shows "process_parts w parts =
           (Inr \<lparr>status = 400, jsonBody = failure ''No file uploaded''\<rparr>, [])"
  using assms by (simp add: process_parts_def)

lemma process_parts_invalid_type:
  assumes "find (\<lambda>p. truthy (filename p)) parts = Some filePart"
      and "\<not> isExcelFile (js_string (filename filePart))"
  shows "process_parts w parts =
           (Inr \<lparr>status = 400,
                 jsonBody = failure
                   ''Invalid file type. Only .xlsx and .xls files are allowed.''\<rparr>, [])"
  using assms by (simp add: process_parts_def)

lemma process_parts_missing:
  assumes "find (\<lambda>p. truthy (filename p)) parts = Some filePart"
      and "isExcelFile (js_string (filename filePart))"
      and "filter (field_missing (collect_fields (toString w) parts)) requiredFields \<noteq> []"
  shows "process_parts w parts =
           (Inr \<lparr>status = 400,
                 jsonBody = (failure ''Missing required fields'')
                   \<lparr>missingFields :=
                      Some (filter (field_missing (collect_fields (toString w) parts))
                              requiredFields)\<rparr>\<rparr>, [])"
  using assms by (simp add: process_parts_def Let_def)

lemma process_parts_valid:
  assumes "find (\<lambda>p. truthy (filename p)) parts = Some filePart"
      and "isExcelFile (js_string (filename filePart))"
      and "filter (field_missing (collect_fields (toString w) parts)) requiredFields = []"
  shows "process_parts w parts =
           (case resolve_connectionString w of
              (Inl e, calls) \<Rightarrow> (Inl e, calls)
            | (Inr connectionString, calls) \<Rightarrow>
                if \<not> truthy connectionString
                then (Inr \<lparr>status = 500,
                           jsonBody = failure ''Azure Storage configuration not found''\<rparr>,
                      calls)
                else (case upload_file w filePart (collect_fields (toString w) parts)
                             connectionString of
                        (r, calls') \<Rightarrow> (r, calls @ calls')))"
  using assms by (simp add: process_parts_def Let_def)

lemma uploads_resolve: "uploads (snd (resolve_connectionString w)) = []"
  by (simp add: resolve_connectionString_def split: sum.splits)

lemma store_calls_resolve: "filter store_call (snd (resolve_connectionString w)) = []"
  by (simp add: resolve_connectionString_def split: sum.splits)

lemma resolve_no_upload: "UploadData k b t m \<notin> set (snd (resolve_connectionString w))"
  by (simp add: resolve_connectionString_def split: sum.splits)

lemma find_first:
  assumes "\<forall>q\<in>set pre. \<not> P q" and "P p"
  shows "find P (pre @ p # post) = Some p"
  using assms by (induction pre) simp_all

lemma find_none: "(\<forall>p\<in>set xs. \<not> P p) \<Longrightarrow> find P xs = None"
  by (induction xs) simp_all

lemma parsed_unique:
  assumes "parsed w request parts" and "parsed w request parts'"
  shows "parts' = parts"
  using assms by (auto simp: parsed_def Let_def split: sum.splits)

subsection \<open>Blank values\<close>

lemma dropWhile_all_iff: "(\<forall>c\<in>set (dropWhile P s). P c) \<longleftrightarrow> dropWhile P s = []"
proof
  assume a: "\<forall>c\<in>set (dropWhile P s). P c"
  show "dropWhile P s = []"
  proof (rule ccontr)
    assume n: "dropWhile P s \<noteq> []"
    then have "\<not> P (hd (dropWhile P s))" by (rule hd_dropWhile)
    moreover have "hd (dropWhile P s) \<in> set (dropWhile P s)" using n by (rule hd_in_set)
    ultimately show False using a by blast
  qed
next
  assume e: "dropWhile P s = []"
  show "\<forall>c\<in>set (dropWhile P s). P c" unfolding e by simp
qed

lemma trim_Nil_iff: "trim s = [] \<longleftrightarrow> blank s"
proof -
  have "trim s = [] \<longleftrightarrow> (\<forall>c\<in>set (dropWhile is_ws s). is_ws c)"
    by (simp add: trim_def)
  also have "\<dots> \<longleftrightarrow> dropWhile is_ws s = []"
    by (rule dropWhile_all_iff)
  also have "\<dots> \<longleftrightarrow> blank s"
    by (simp add: blank_def list_all_iff)
  finally show ?thesis .
qed

lemma field_missing_iff:
  "field_missing flds k \<longleftrightarrow> (case flds k of None \<Rightarrow> True | Some v \<Rightarrow> blank v)"
  by (auto simp: field_missing_def trim_Nil_iff blank_def split: option.splits)

lemma no_missing_iff:
  "filter (field_missing flds) requiredFields = [] \<longleftrightarrow> fields_complete flds"
  by (auto simp: filter_empty_conv fields_complete_def list_all_iff field_missing_iff
      split: option.splits)

lemma missing_eq:
  "filter (field_missing flds) requiredFields
     = filter (\<lambda>k. case flds k of None \<Rightarrow> True | Some v \<Rightarrow> blank v) requiredFields"
  by (rule filter_cong) (simp_all add: field_missing_iff)

subsection \<open>The upload\<close>

lemma uploads_upload_file:
  assumes "upload_file w filePart flds c = (r, calls)"
  shows "\<forall>u\<in>set (uploads calls). fst (snd u) = data filePart"
  using assms by (auto simp: upload_file_def Let_def split: sum.splits)

lemma uploads_process_parts:
  assumes "find (\<lambda>p. truthy (filename p)) parts = Some filePart"
  shows "\<forall>u\<in>set (uploads (snd (process_parts w parts))). fst (snd u) = data filePart"
proof -
  have r: "uploads (snd (resolve_connectionString w)) = []"
    by (rule uploads_resolve)
  show ?thesis
    using assms r
    by (auto simp: process_parts_def Let_def uploads_append
        split: prod.splits sum.splits dest: uploads_upload_file)
qed

lemma original_upload_file:
  assumes "upload_file w filePart flds c = (Inr r, calls)"
  shows "originalFileName (jsonBody r) = Some (js_string (filename filePart))"
  using assms by (auto simp: upload_file_def Let_def split: sum.splits)

lemma original_process_parts:
  assumes "find (\<lambda>p. truthy (filename p)) parts = Some filePart"
      and "fst (process_parts w parts) = Inr r" and "status r = 200"
  shows "originalFileName (jsonBody r) = filename filePart"
proof -
  have "truthy (filename filePart)"
    using assms(1) by (auto simp: find_Some_iff)
  then have fn: "Some (js_string (filename filePart)) = filename filePart"
    by (cases "filename filePart") (simp_all add: truthy_def js_string_def)
  show ?thesis
    using assms fn
    by (auto simp: process_parts_def Let_def split: prod.splits sum.splits if_splits
        dest: original_upload_file)
qed

lemma upload_file_ok:
  assumes "fromConnectionString w c = Inr ()"
      and "createIfNotExists w containerName = Inr ()"
      and "uploadData w (uniqueFilename flds (now w 0) (js_string (filename filePart)))
             (data filePart) (fileContentType (split_pop (js_string (filename filePart))))
             (spread [''originalFilename'' \<mapsto> js_string (filename filePart),
                      ''uploadedAt'' \<mapsto> toISOString (now w 1)] flds) = Inr ()"
  shows "\<exists>r calls. upload_file w filePart flds c = (Inr r, calls)
       \<and> status r = 200 \<and> success (jsonBody r) = Some True
       \<and> metadata (jsonBody r) = Some flds
       \<and> uploads calls =
           [(uniqueFilename flds (now w 0) (js_string (filename filePart)), data filePart,
             fileContentType (split_pop (js_string (filename filePart))),
             spread [''originalFilename'' \<mapsto> js_string (filename filePart),
                     ''uploadedAt'' \<mapsto> toISOString (now w 1)] flds)]"
  using assms by (simp add: upload_file_def Let_def)

lemma upload_file_Inr:
  assumes "upload_file w filePart flds c = (Inr r, calls)"
  shows "status r = 200 \<and> success (jsonBody r) = Some True
       \<and> metadata (jsonBody r) = Some flds
       \<and> originalFileName (jsonBody r) = Some (js_string (filename filePart))
       \<and> fileName (jsonBody r)
           = Some (uniqueFilename flds (now w 0) (js_string (filename filePart)))
       \<and> map fst (uploads calls)
           = [uniqueFilename flds (now w 0) (js_string (filename filePart))]
       \<and> map (fst \<circ> snd) (uploads calls) = [data filePart]"
  using assms by (auto simp: upload_file_def Let_def split: sum.splits)

lemma upload_file_calls:
  assumes "fromConnectionString w c = Inr ()" and "createIfNotExists w containerName = Inr ()"
  shows "snd (upload_file w filePart flds c) =
           [FromConnectionString c, CreateIfNotExists containerName,
            UploadData (uniqueFilename flds (now w 0) (js_string (filename filePart)))
              (data filePart) (fileContentType (split_pop (js_string (filename filePart))))
              (spread [''originalFilename'' \<mapsto> js_string (filename filePart),
                       ''uploadedAt'' \<mapsto> toISOString (now w 1)] flds)]"
  using assms by (simp add: upload_file_def Let_def split: sum.splits)

lemma upload_file_throws:
  assumes "upload_file w filePart flds c = (r, calls)"
      and "UploadData k b t m \<in> set calls" and "uploadData w k b t m = Inl e"
  shows "r = Inl e"
  using assms by (auto simp: upload_file_def Let_def split: sum.splits)

lemma process_parts_throws:
  assumes "process_parts w parts = (r, calls)"
      and "UploadData k b t m \<in> set calls" and "uploadData w k b t m = Inl e"
  shows "r = Inl e"
  using assms resolve_no_upload [of k b t m w]
  by (auto simp: process_parts_def Let_def split: option.splits if_splits prod.splits sum.splits
      dest: upload_file_throws)

lemma handler_try_throws:
  assumes "handler_try w request = (r, calls)"
      and "UploadData k b t m \<in> set calls" and "uploadData w k b t m = Inl e"
  shows "r = Inl e"
  using assms
  by (auto simp: handler_try_def Let_def split: if_splits prod.splits sum.splits
      dest: process_parts_throws)

subsection \<open>The metadata fields\<close>

lemma map_of_filter_other:
  "k \<noteq> p \<Longrightarrow> map_of (filter (\<lambda>kv. fst kv \<noteq> p) xs) k = map_of xs k"
  by (induction xs) auto

lemma collect_fields_foldl:
  "foldl (\<lambda>flds part.
            if \<not> truthy (filename part) \<and> truthy (name part)
            then js_set flds (js_string (name part)) (decode (data part))
            else flds) acc parts
   = acc ++ map_of (rev (filter (\<lambda>kv. fst kv \<noteq> ''__proto__'') (form_fields decode parts)))"
proof (induction parts arbitrary: acc)
  case Nil
  then show ?case by (simp add: form_fields_def)
next
  case (Cons p ps)
  let ?rest = "map_of (rev (filter (\<lambda>kv. fst kv \<noteq> ''__proto__'') (form_fields decode ps)))"
  show ?case
  proof (cases "\<not> truthy (filename p) \<and> truthy (name p) \<and> js_string (name p) \<noteq> ''__proto__''")
    case True
    let ?f = "\<lambda>flds part.
                if \<not> truthy (filename part) \<and> truthy (name part)
                then js_set flds (js_string (name part)) (decode (data part))
                else flds"
    let ?k = "js_string (name p)" and ?v = "decode (data p)"
    have "foldl ?f acc (p # ps) = foldl ?f (js_set acc ?k ?v) ps"
      using True by simp
    also have "\<dots> = js_set acc ?k ?v ++ ?rest"
      by (rule Cons.IH)
    also have "js_set acc ?k ?v = acc ++ [?k \<mapsto> ?v]"
      using True by (simp add: js_set_def)
    also have "(acc ++ [?k \<mapsto> ?v]) ++ ?rest = acc ++ ([?k \<mapsto> ?v] ++ ?rest)"
      by (rule map_add_assoc [symmetric])
    also have "[?k \<mapsto> ?v] ++ ?rest
                 = map_of (rev (filter (\<lambda>kv. fst kv \<noteq> ''__proto__'')
                                  (form_fields decode (p # ps))))"
      using True by (simp add: form_fields_def)
    finally show ?thesis .
  next
    case False
    then show ?thesis
      by (auto simp: Cons.IH form_fields_def js_set_def)
  qed
qed

lemma collect_fields_map_of:
  "collect_fields decode parts
     = map_of (rev (filter (\<lambda>kv. fst kv \<noteq> ''__proto__'') (form_fields decode parts)))"
  by (simp add: collect_fields_def collect_fields_foldl)

lemma collect_fields_lookup:
  assumes "k \<noteq> ''__proto__''"
  shows "collect_fields decode parts k = map_of (rev (form_fields decode parts)) k"
  using assms by (simp add: collect_fields_map_of rev_filter map_of_filter_other)

lemma collect_fields_proto: "collect_fields decode parts ''__proto__'' = None"
  by (auto simp: collect_fields_map_of map_of_eq_None_iff)

lemma dom_collect_fields:
  "dom (collect_fields decode parts) = fst ` set (form_fields decode parts) - {''__proto__''}"
  by (auto simp: collect_fields_map_of dom_map_of_conv_image_fst)

lemma collect_fields_echo:
  assumes "distinct (map fst (form_fields decode parts))"
      and "(k, v) \<in> set (form_fields decode parts)" and "k \<noteq> ''__proto__''"
  shows "collect_fields decode parts k = Some v"
proof -
  have "distinct (map fst (rev (form_fields decode parts)))"
    using assms(1) by (simp add: rev_map [symmetric])
  moreover have "(k, v) \<in> set (rev (form_fields decode parts))"
    using assms(2) by simp
  ultimately have "map_of (rev (form_fields decode parts)) k = Some v"
    by (rule map_of_is_SomeI)
  then show ?thesis
    by (simp add: collect_fields_lookup [OF assms(3)])
qed

lemma spread_keeps: "b k = Some v \<Longrightarrow> spread a b k = Some v"
  by (simp add: spread_def map_add_Some_iff)





subsection \<open>The time stamp determines the instant\<close>













subsection \<open>Valid submissions\<close>

lemma valid_submission_cong:
  assumes "getBoundary w' = getBoundary w" and "Parse w' = Parse w" and "toString w' = toString w"
  shows "valid_submission w' request parts filePart = valid_submission w request parts filePart"
  using assms by (simp add: valid_submission_def parsed_def Let_def split: sum.splits)

lemma handler_valid:
  assumes "valid_submission w request parts filePart"
      and "resolve_connectionString w = (Inr c, calls)" and "truthy c"
      and "upload_file w filePart (collect_fields (toString w) parts) c = (r, calls')"
  shows "fst (handler w request) = (case r of Inl e \<Rightarrow> internal_error e | Inr r \<Rightarrow> r)"
    and "uploads (snd (handler w request)) = uploads calls'"
proof -
  have p: "parsed w request parts"
    and f: "find (\<lambda>p. truthy (filename p)) parts = Some filePart"
    and x: "isExcelFile (js_string (filename filePart))"
    and m: "filter (field_missing (collect_fields (toString w) parts)) requiredFields = []"
    using assms(1) by (simp_all add: valid_submission_def no_missing_iff)
  have u: "uploads calls = []"
    using uploads_resolve [of w] assms(2) by simp
  have pp: "process_parts w parts = (r, calls @ calls')"
    using process_parts_valid [OF f x m] assms(2,3,4) by simp
  show "fst (handler w request) = (case r of Inl e \<Rightarrow> internal_error e | Inr r \<Rightarrow> r)"
    using handler_parsed(1) [OF p] pp by simp
  show "uploads (snd (handler w request)) = uploads calls'"
    using handler_parsed(2) [OF p] pp u by (simp add: uploads_append)
qed

lemma handler_200:
  assumes "status (fst (handler w request)) = 200"
  shows "\<exists>parts filePart c calls r calls'.
           valid_submission w request parts filePart
         \<and> resolve_connectionString w = (Inr c, calls) \<and> truthy c
         \<and> upload_file w filePart (collect_fields (toString w) parts) c = (Inr r, calls')
         \<and> fst (handler w request) = r
         \<and> uploads (snd (handler w request)) = uploads calls'"
proof -
  obtain ct where ct: "ct = js_or (headers_get request ''content-type'') (headers_get request ''Content-Type'')"
    by simp
  obtain b where b: "b = getBoundary w (js_string ct)" by simp
  have t: "truthy ct" "truthy b"
    using assms ct b
    by (auto simp: handler_def handler_try_def Let_def failure_def split: if_splits)
  obtain body where body: "arrayBuffer request = Inr body"
    using assms ct b t
    by (cases "arrayBuffer request")
       (auto simp: handler_def handler_try_def Let_def failure_def internal_error_def)
  obtain parts where parts: "Parse w body (js_string b) = Inr parts"
    using assms ct b t body
    by (cases "Parse w body (js_string b)")
       (auto simp: handler_def handler_try_def Let_def failure_def internal_error_def)
  have p: "parsed w request parts"
    using ct b t body parts by (simp add: parsed_def Let_def)
  have s: "status (case fst (process_parts w parts) of Inl e \<Rightarrow> internal_error e | Inr r \<Rightarrow> r)
             = 200"
    using handler_parsed(1) [OF p] assms by simp
  obtain filePart where f: "find (\<lambda>p. truthy (filename p)) parts = Some filePart"
    using s process_parts_no_file [of parts w]
    by (cases "find (\<lambda>p. truthy (filename p)) parts") (auto simp: failure_def)
  have x: "isExcelFile (js_string (filename filePart))"
  proof (rule ccontr)
    assume n: "\<not> isExcelFile (js_string (filename filePart))"
    show False
      using s process_parts_invalid_type [OF f n, of w] by (simp add: failure_def)
  qed
  have m: "filter (field_missing (collect_fields (toString w) parts)) requiredFields = []"
  proof (rule ccontr)
    assume n: "filter (field_missing (collect_fields (toString w) parts)) requiredFields \<noteq> []"
    show False
      using s process_parts_missing [OF f x n] by (simp add: failure_def)
  qed
  have v: "valid_submission w request parts filePart"
    using p f x m by (simp add: valid_submission_def no_missing_iff)
  note pv = process_parts_valid [OF f x m]
  obtain rc calls where rc: "resolve_connectionString w = (rc, calls)"
    by (cases "resolve_connectionString w")
  obtain c where c: "rc = Inr c"
    using s pv rc by (cases rc) (auto simp: internal_error_def)
  have tc: "truthy c"
    using s pv rc c by (auto simp: failure_def split: if_splits)
  obtain r calls' where u: "upload_file w filePart (collect_fields (toString w) parts) c = (r, calls')"
    by (cases "upload_file w filePart (collect_fields (toString w) parts) c")
  obtain r' where r': "r = Inr r'"
    using assms handler_valid(1) [OF v rc [unfolded c] tc u]
    by (cases r) (auto simp: internal_error_def)
  show ?thesis
    using v rc c tc u r' handler_valid [OF v rc [unfolded c] tc u] by auto
qed

lemma handler_upload_issued:
  assumes "valid_submission w request parts filePart"
      and "resolve_connectionString w = (Inr c, calls)" and "truthy c"
      and "fromConnectionString w c = Inr ()" and "createIfNotExists w containerName = Inr ()"
  shows "UploadData
           (uniqueFilename (collect_fields (toString w) parts) (now w 0)
              (js_string (filename filePart)))
           (data filePart) (fileContentType (split_pop (js_string (filename filePart))))
           (spread [''originalFilename'' \<mapsto> js_string (filename filePart),
                    ''uploadedAt'' \<mapsto> toISOString (now w 1)]
              (collect_fields (toString w) parts))
         \<in> set (snd (handler w request))"
proof -
  have p: "parsed w request parts"
    and f: "find (\<lambda>p. truthy (filename p)) parts = Some filePart"
    and x: "isExcelFile (js_string (filename filePart))"
    and m: "filter (field_missing (collect_fields (toString w) parts)) requiredFields = []"
    using assms(1) by (simp_all add: valid_submission_def no_missing_iff)
  have "snd (process_parts w parts)
          = calls @ snd (upload_file w filePart (collect_fields (toString w) parts) c)"
    using process_parts_valid [OF f x m] assms(2,3) by (simp split: prod.splits)
  then show ?thesis
    using handler_calls [OF p] upload_file_calls [OF assms(4,5)] by auto
qed

lemma resolve_absent:
  assumes "\<not> truthy (env_AzureWebJobsStorage w)"
      and "\<not> existsSync w \<or> (\<exists>v. localSettings w = Inr v \<and> \<not> truthy v)"
  shows "\<exists>c calls. resolve_connectionString w = (Inr c, calls) \<and> \<not> truthy c"
  using assms by (auto simp: resolve_connectionString_def)

lemma handler_no_connection_string:
  assumes "valid_submission w request parts filePart"
      and "\<not> truthy (env_AzureWebJobsStorage w)"
      and "\<not> existsSync w \<or> (\<exists>v. localSettings w = Inr v \<and> \<not> truthy v)"
  shows "status (fst (handler w request)) = 500
       \<and> success (jsonBody (fst (handler w request))) = Some False
       \<and> error (jsonBody (fst (handler w request)))
           = Some ''Azure Storage configuration not found''
       \<and> filter store_call (snd (handler w request)) = []
       \<and> uploads (snd (handler w request)) = []"
proof -
  have p: "parsed w request parts"
    and f: "find (\<lambda>p. truthy (filename p)) parts = Some filePart"
    and x: "isExcelFile (js_string (filename filePart))"
    and m: "filter (field_missing (collect_fields (toString w) parts)) requiredFields = []"
    using assms(1) by (simp_all add: valid_submission_def no_missing_iff)
  obtain c calls where c: "resolve_connectionString w = (Inr c, calls)" "\<not> truthy c"
    using resolve_absent [OF assms(2,3)] by blast
  have pp: "process_parts w parts =
              (Inr \<lparr>status = 500,
                    jsonBody = failure ''Azure Storage configuration not found''\<rparr>, calls)"
    using process_parts_valid [OF f x m] c by simp
  have s: "filter store_call calls = []" "uploads calls = []"
    using store_calls_resolve [of w] uploads_resolve [of w] c(1) by simp_all
  obtain b s where "snd (handler w request) = [ArrayBuffer, MultipartParse b s] @ calls"
    using handler_calls [OF p] pp by auto
  then show ?thesis
    using handler_parsed(1) [OF p] pp s by (simp add: failure_def uploads_append)
qed


lemma find_filter_single:
  assumes "filter P xs = [x]"
  shows "find P xs = Some x"
  using assms by (induction xs) (auto split: if_splits)

lemma process_parts_file_error:
  assumes "find (\<lambda>p. truthy (filename p)) parts = Some filePart"
      and "process_parts w parts = (Inr r, calls)"
  shows "error (jsonBody r) \<noteq> Some ''No file uploaded''"
    and "isExcelFile (js_string (filename filePart)) \<Longrightarrow>
         error (jsonBody r)
           \<noteq> Some ''Invalid file type. Only .xlsx and .xls files are allowed.''"
  using assms
  by (auto simp: process_parts_def upload_file_def Let_def failure_def
      split: if_splits prod.splits sum.splits)

lemma handler_file_error:
  assumes "parsed w request parts"
      and "find (\<lambda>p. truthy (filename p)) parts = Some filePart"
  shows "error (jsonBody (fst (handler w request))) \<noteq> Some ''No file uploaded''"
    and "isExcelFile (js_string (filename filePart)) \<Longrightarrow>
         error (jsonBody (fst (handler w request)))
           \<noteq> Some ''Invalid file type. Only .xlsx and .xls files are allowed.''"
proof -
  obtain r calls where pp: "process_parts w parts = (r, calls)"
    by (cases "process_parts w parts")
  show "error (jsonBody (fst (handler w request))) \<noteq> Some ''No file uploaded''"
    using handler_parsed(1) [OF assms(1)] pp process_parts_file_error(1) [OF assms(2)]
    by (cases r) (auto simp: internal_error_def failure_def)
  show "error (jsonBody (fst (handler w request)))
          \<noteq> Some ''Invalid file type. Only .xlsx and .xls files are allowed.''"
    if "isExcelFile (js_string (filename filePart))"
    using handler_parsed(1) [OF assms(1)] pp process_parts_file_error(2) [OF assms(2) _ that]
    by (cases r) (auto simp: internal_error_def failure_def)
qed

lemma handler_upload_ok:
  assumes "valid_submission w request parts filePart"
      and "resolve_connectionString w = (Inr c, calls)" and "truthy c"
      and "fromConnectionString w c = Inr ()"
      and "createIfNotExists w containerName = Inr ()"
      and "uploadData w
             (uniqueFilename (collect_fields (toString w) parts) (now w 0)
                (js_string (filename filePart)))
             (data filePart) (fileContentType (split_pop (js_string (filename filePart))))
             (spread [''originalFilename'' \<mapsto> js_string (filename filePart),
                      ''uploadedAt'' \<mapsto> toISOString (now w 1)]
                (collect_fields (toString w) parts)) = Inr ()"
  shows "status (fst (handler w request)) = 200"
    and "success (jsonBody (fst (handler w request))) = Some True"
    and "metadata (jsonBody (fst (handler w request)))
           = Some (collect_fields (toString w) parts)"
    and "uploads (snd (handler w request)) =
           [(uniqueFilename (collect_fields (toString w) parts) (now w 0)
               (js_string (filename filePart)),
             data filePart, fileContentType (split_pop (js_string (filename filePart))),
             spread [''originalFilename'' \<mapsto> js_string (filename filePart),
                     ''uploadedAt'' \<mapsto> toISOString (now w 1)]
               (collect_fields (toString w) parts))]"
proof -
  obtain r calls' where u: "upload_file w filePart (collect_fields (toString w) parts) c
                              = (Inr r, calls')"
    and r: "status r = 200" "success (jsonBody r) = Some True"
      "metadata (jsonBody r) = Some (collect_fields (toString w) parts)"
    and c: "uploads calls' =
              [(uniqueFilename (collect_fields (toString w) parts) (now w 0)
                  (js_string (filename filePart)),
                data filePart, fileContentType (split_pop (js_string (filename filePart))),
                spread [''originalFilename'' \<mapsto> js_string (filename filePart),
                        ''uploadedAt'' \<mapsto> toISOString (now w 1)]
                  (collect_fields (toString w) parts))]"
    using upload_file_ok [OF assms(4,5,6)] by auto
  note h = handler_valid [OF assms(1,2,3) u]
  show "status (fst (handler w request)) = 200"
    and "success (jsonBody (fst (handler w request))) = Some True"
    and "metadata (jsonBody (fst (handler w request)))
           = Some (collect_fields (toString w) parts)"
    and "uploads (snd (handler w request)) =
           [(uniqueFilename (collect_fields (toString w) parts) (now w 0)
               (js_string (filename filePart)),
             data filePart, fileContentType (split_pop (js_string (filename filePart))),
             spread [''originalFilename'' \<mapsto> js_string (filename filePart),
                     ''uploadedAt'' \<mapsto> toISOString (now w 1)]
               (collect_fields (toString w) parts))]"
    using h r c by simp_all
qed

lemma handler_200_file:
  assumes "parsed w request parts"
      and "find (\<lambda>p. truthy (filename p)) parts = Some filePart"
      and "status (fst (handler w request)) = 200"
  shows "originalFileName (jsonBody (fst (handler w request))) = filename filePart"
    and "map (fst \<circ> snd) (uploads (snd (handler w request))) = [data filePart]"
proof -
  obtain parts' filePart' c calls r calls'
    where v: "valid_submission w request parts' filePart'"
      and u: "upload_file w filePart' (collect_fields (toString w) parts') c = (Inr r, calls')"
      and h: "fst (handler w request) = r" "uploads (snd (handler w request)) = uploads calls'"
    using handler_200 [OF assms(3)] by blast
  have "parts' = parts"
    using v assms(1) parsed_unique [of w request parts parts'] by (simp add: valid_submission_def)
  then have same: "filePart' = filePart"
    using v assms(2) by (simp add: valid_submission_def)
  have "truthy (filename filePart)"
    using assms(2) by (auto simp: find_Some_iff)
  then have fn: "Some (js_string (filename filePart)) = filename filePart"
    by (cases "filename filePart") (simp_all add: truthy_def js_string_def)
  note a = upload_file_Inr [OF u [unfolded same]]
  show "originalFileName (jsonBody (fst (handler w request))) = filename filePart"
    using a h fn by simp
  show "map (fst \<circ> snd) (uploads (snd (handler w request))) = [data filePart]"
    using a h by simp
qed

subsection \<open>The handler of \<^verbatim>\<open>src/api/index.js\<close> after the parse\<close>

lemma index_upload_throws:
  assumes "index_upload w filePart flds = (r, calls)"
      and "UploadData k b t m \<in> set calls" and "uploadData w k b t m = Inl e"
  shows "r = Inl e"
  using assms by (auto simp: index_upload_def Let_def split: sum.splits)

lemma index_handler_parsed:
  assumes "parsed w request parts"
      and "find (\<lambda>p. truthy (filename p)) parts = Some filePart"
      and "index_upload w filePart (index_collect_fields (toString w) parts) = (r, calls)"
  shows "fst (index_handler w request)
           = (case r of
                Inl uploadErr \<Rightarrow>
                  Inr \<lparr>index_status = 500,
                       index_body = Inr
                         \<lparr>success = None, error = Some ''Failed to upload file'',
                          details = Some (exn_message uploadErr), missingFields = None,
                          message = None, fileName = None, originalFileName = None,
                          url = None, metadata = None, uploadedAt = None\<rparr>\<rparr>
              | Inr resp \<Rightarrow> Inr resp)"
    and "\<exists>b s. snd (index_handler w request) = [ArrayBuffer, MultipartParse b s] @ calls"
  using assms
  by (auto simp: parsed_def index_handler_def Let_def split: sum.splits prod.splits)

lemma index_upload_calls:
  assumes "fromConnectionString w (env_AzureWebJobsStorage w) = Inr ()"
      and "createIfNotExists w containerName = Inr ()"
  shows "snd (index_upload w filePart flds) =
           [FromConnectionString (env_AzureWebJobsStorage w), CreateIfNotExists containerName,
            UploadData (js_string (filename filePart)) (data filePart)
              (js_string (js_or (type filePart) (Some ''application/octet-stream''))) Map.empty]"
  using assms by (simp add: index_upload_def Let_def split: sum.splits)

subsection \<open>The example requests\<close>

lemma parsed_example: "parsed (ex_world\<lparr>Parse := \<lambda>b s. Inr ps\<rparr>) ex_request ps"
  by (simp add: parsed_def ex_world_def ex_request_def js_or_def truthy_def js_string_def)

lemma find_fields:
  "find (\<lambda>p. truthy (filename p)) (ex_fields @ ps) = find (\<lambda>p. truthy (filename p)) ps"
  by (simp add: ex_fields_def field_part_def truthy_def)

lemma ex_toString: "toString ex_world = ascii"
  by (simp add: ex_world_def)

lemma ex_now: "now ex_world = ex_date"
  by (simp add: ex_world_def)

lemma ex_form_fields:
  "form_fields ascii ex_parts =
     [(''company'', ''ACME''), (''business_unit'', ''IT''), (''location'', ''NY''),
      (''time_period'', ''2024''), (''esg_topic'', ''E''), (''esg_metric'', ''F''),
      (''unit'', ''kWh'')]"
  by code_simp

lemma ex_collect:
  "collect_fields ascii ex_parts =
     map_of
       [(''company'', ''ACME''), (''business_unit'', ''IT''), (''location'', ''NY''),
        (''time_period'', ''2024''), (''esg_topic'', ''E''), (''esg_metric'', ''F''),
        (''unit'', ''kWh'')]"
  unfolding collect_fields_map_of ex_form_fields
  by (subst map_of_inject_set) auto

lemma ex_complete: "fields_complete (collect_fields ascii ex_parts)"
  by code_simp

lemma ex_valid:
  "valid_submission ex_world ex_request ex_parts (file_part ''report.xlsx'' [80, 75, 3, 4])"
proof -
  have w: "ex_world\<lparr>Parse := \<lambda>b s. Inr ex_parts\<rparr> = ex_world"
    by (simp add: ex_world_def)
  have p: "parsed ex_world ex_request ex_parts"
    using parsed_example [of ex_parts] by (simp only: w)
  have f: "find (\<lambda>p. truthy (filename p)) ex_parts = Some (file_part ''report.xlsx'' [80, 75, 3, 4])"
    by (simp add: ex_parts_def find_fields) (simp add: file_part_def truthy_def)
  have x: "isExcelFile ''report.xlsx''"
    by code_simp
  have t: "toString ex_world = ascii"
    by (simp add: ex_world_def)
  show ?thesis
    using p f x ex_complete
    by (simp add: valid_submission_def t) (simp add: file_part_def js_string_def)
qed

lemma ex_valid_store_down:
  "valid_submission ex_world_store_down ex_request ex_parts
     (file_part ''report.xlsx'' [80, 75, 3, 4])"
  using ex_valid
  by (simp add: ex_world_store_down_def
      valid_submission_cong [of "ex_world\<lparr>uploadData := u\<rparr>" ex_world for u])


lemma ex_missing:
  "filter (field_missing (collect_fields ascii ex_incomplete)) requiredFields
     = [''business_unit'', ''location'', ''time_period'', ''esg_topic'', ''esg_metric'', ''unit'']"
  by code_simp

lemma ex_missing_no_file:
  "filter (field_missing (collect_fields ascii ex_no_file)) requiredFields
     = [''business_unit'', ''location'', ''time_period'', ''esg_topic'', ''esg_metric'', ''unit'']"
  by code_simp

lemma ex_index_calls:
  "UploadData ''report.xlsx'' [80, 75, 3, 4] ''application/octet-stream'' Map.empty
     \<in> set (snd (index_handler ex_world_store_down ex_request))"
proof -
  have p: "parsed ex_world_store_down ex_request ex_parts"
    using ex_valid_store_down by (simp add: valid_submission_def)
  have f: "find (\<lambda>p. truthy (filename p)) ex_parts
             = Some (file_part ''report.xlsx'' [80, 75, 3, 4])"
    using ex_valid_store_down by (simp add: valid_submission_def)
  have c: "fromConnectionString ex_world_store_down (env_AzureWebJobsStorage ex_world_store_down)
             = Inr ()"
    "createIfNotExists ex_world_store_down containerName = Inr ()"
    by (simp_all add: ex_world_store_down_def ex_world_def)
  have "snd (index_upload ex_world_store_down (file_part ''report.xlsx'' [80, 75, 3, 4])
               (index_collect_fields (toString ex_world_store_down) ex_parts))
        = [FromConnectionString (env_AzureWebJobsStorage ex_world_store_down),
           CreateIfNotExists containerName,
           UploadData ''report.xlsx'' [80, 75, 3, 4] ''application/octet-stream'' Map.empty]"
    unfolding index_upload_calls [OF c]
    by (simp add: file_part_def js_string_def js_or_def truthy_def)
  then show ?thesis
    using index_handler_parsed(2) [OF p f surjective_pairing] by auto
qed

lemma ex_upload_ok:
  assumes "find (\<lambda>p. truthy (filename p)) ps = Some (file_part ''report.xlsx'' [80, 75, 3, 4])"
      and "fields_complete (collect_fields ascii ps)"
  shows "status (fst (handler (ex_world\<lparr>Parse := \<lambda>b s. Inr ps\<rparr>) ex_request)) = 200"
    and "metadata (jsonBody (fst (handler (ex_world\<lparr>Parse := \<lambda>b s. Inr ps\<rparr>) ex_request)))
           = Some (collect_fields ascii ps)"
proof -
  let ?w = "ex_world\<lparr>Parse := \<lambda>b s. Inr ps\<rparr>"
  have x: "isExcelFile ''report.xlsx''"
    by code_simp
  have t: "toString ?w = ascii"
    by (simp add: ex_world_def)
  have v: "valid_submission ?w ex_request ps (file_part ''report.xlsx'' [80, 75, 3, 4])"
    using parsed_example [of ps] assms x
    by (simp add: valid_submission_def t) (simp add: file_part_def js_string_def)
  have r: "resolve_connectionString ?w = (Inr (Some ''UseDevelopmentStorage=true''), [])"
    by (simp add: resolve_connectionString_def ex_world_def truthy_def)
  have tc: "truthy (Some ''UseDevelopmentStorage=true'')"
    by (simp add: truthy_def)
  have c: "fromConnectionString ?w (Some ''UseDevelopmentStorage=true'') = Inr ()"
    "createIfNotExists ?w containerName = Inr ()"
    "\<And>k b t m. uploadData ?w k b t m = Inr ()"
    by (simp_all add: ex_world_def)
  show "status (fst (handler ?w ex_request)) = 200"
    by (rule handler_upload_ok(1) [OF v r tc c(1,2,3)])
  show "metadata (jsonBody (fst (handler ?w ex_request))) = Some (collect_fields ascii ps)"
    using handler_upload_ok(3) [OF v r tc c(1,2,3)] by (simp only: t)
qed

lemma ex_two_files_200: "status (fst (handler ex_world_two_files ex_request)) = 200"
proof -
  have f: "find (\<lambda>p. truthy (filename p)) ex_two_files
             = Some (file_part ''report.xlsx'' [80, 75, 3, 4])"
    by (simp add: ex_two_files_def find_fields) (simp add: file_part_def truthy_def)
  have c: "fields_complete (collect_fields ascii ex_two_files)"
    by code_simp
  show ?thesis
    unfolding ex_world_two_files_def by (rule ex_upload_ok(1) [OF f c])
qed

section \<open>The claims\<close>

subsection \<open>The header checks\<close>

text \<open>
  Claim C8. A request with no content-type header, in neither spelling, is answered with
  status 400, \<^verbatim>\<open>success: false\<close> and the error ``Missing content-type header'', and the
  handler has issued no call by then: it has not read the body, parsed it or uploaded
  anything.
\<close>

theorem missing_content_type:
  assumes "headers_get request ''content-type'' = None"
      and "headers_get request ''Content-Type'' = None"
  shows "status (fst (handler w request)) = 400
       \<and> success (jsonBody (fst (handler w request))) = Some False
       \<and> error (jsonBody (fst (handler w request))) = Some ''Missing content-type header''
       \<and> snd (handler w request) = []"
  using assms by (simp add: handler_def handler_try_def js_or_def truthy_def failure_def)

theorem missing_content_type_witness:
  "headers_get (ex_request\<lparr>headers_get := \<lambda>h. None\<rparr>) ''content-type'' = None
   \<and> status (fst (handler ex_world (ex_request\<lparr>headers_get := \<lambda>h. None\<rparr>))) = 400
   \<and> snd (handler ex_world (ex_request\<lparr>headers_get := \<lambda>h. None\<rparr>)) = []"
  using missing_content_type [of "ex_request\<lparr>headers_get := \<lambda>h. None\<rparr>" ex_world]
  by simp

text \<open>
  Claim C7. When the request has a content type and \<^verbatim>\<open>getBoundary\<close> finds no boundary
  in it, the answer is status 400, \<^verbatim>\<open>success: false\<close> and the error ``Malformed
  content-type header: boundary not found'', and the handler has issued no call by then: the
  body is neither read nor parsed.
\<close>

theorem boundary_not_found:
  assumes "contentType =
             js_or (headers_get request ''content-type'') (headers_get request ''Content-Type'')"
      and "truthy contentType"
      and "\<not> truthy (getBoundary w (js_string contentType))"
  shows "status (fst (handler w request)) = 400
       \<and> success (jsonBody (fst (handler w request))) = Some False
       \<and> error (jsonBody (fst (handler w request)))
           = Some ''Malformed content-type header: boundary not found''
       \<and> snd (handler w request) = []"
  using assms by (simp add: handler_def handler_try_def failure_def)

theorem boundary_not_found_witness:
  "truthy (Some ''text/plain'')
   \<and> \<not> truthy (getBoundary ex_world ''text/plain'')
   \<and> status (fst (handler ex_world
         (ex_request\<lparr>headers_get := \<lambda>h. Some ''text/plain''\<rparr>))) = 400
   \<and> error (jsonBody (fst (handler ex_world
         (ex_request\<lparr>headers_get := \<lambda>h. Some ''text/plain''\<rparr>))))
       = Some ''Malformed content-type header: boundary not found''
   \<and> snd (handler ex_world (ex_request\<lparr>headers_get := \<lambda>h. Some ''text/plain''\<rparr>)) = []"
proof -
  have ct: "js_or (headers_get (ex_request\<lparr>headers_get := \<lambda>h. Some ''text/plain''\<rparr>) ''content-type'')
              (headers_get (ex_request\<lparr>headers_get := \<lambda>h. Some ''text/plain''\<rparr>) ''Content-Type'')
            = Some ''text/plain''"
    by (simp add: js_or_def)
  have t: "truthy (Some ''text/plain'')"
    by (simp add: truthy_def)
  have b: "\<not> truthy (getBoundary ex_world (js_string (Some ''text/plain'')))"
    by (simp add: truthy_def ex_world_def js_string_def)
  show ?thesis
    using boundary_not_found [OF ct [symmetric] t b] t b
    by (simp add: js_string_def)
qed

subsection \<open>The file part\<close>

text \<open>
  Claim C6. When the request has been parsed and no part has a filename, the answer is
  status 400, \<^verbatim>\<open>success: false\<close> and the error ``No file uploaded'', and nothing is
  uploaded. When some part has a filename, the first such part in the order of the parts is
  the file part. It is what \<^verbatim>\<open>parts.find\<close> returns, and the answer is not ``No file
  uploaded''. It is the part whose name is checked: the answer is ``Invalid file type''
  when its name is not that of a spreadsheet, whatever the later parts are, and is not
  that error when it is. It is the part that is uploaded: an upload call carries its bytes,
  and an answer with status 200 comes with exactly one upload call, of its bytes, and names
  it as the original file.
\<close>

theorem file_selection:
  assumes "parsed w request parts"
  shows "((\<forall>p\<in>set parts. \<not> truthy (filename p)) \<longrightarrow>
            status (fst (handler w request)) = 400
          \<and> success (jsonBody (fst (handler w request))) = Some False
          \<and> error (jsonBody (fst (handler w request))) = Some ''No file uploaded''
          \<and> uploads (snd (handler w request)) = [])
       \<and> (\<forall>pre p post.
            parts = pre @ p # post \<and> (\<forall>q\<in>set pre. \<not> truthy (filename q))
            \<and> truthy (filename p) \<longrightarrow>
              find (\<lambda>p. truthy (filename p)) parts = Some p
            \<and> error (jsonBody (fst (handler w request))) \<noteq> Some ''No file uploaded''
            \<and> (\<not> isExcelFile (js_string (filename p)) \<longrightarrow>
                 status (fst (handler w request)) = 400
               \<and> error (jsonBody (fst (handler w request)))
                   = Some ''Invalid file type. Only .xlsx and .xls files are allowed.''
               \<and> uploads (snd (handler w request)) = [])
            \<and> (isExcelFile (js_string (filename p)) \<longrightarrow>
                 error (jsonBody (fst (handler w request)))
                   \<noteq> Some ''Invalid file type. Only .xlsx and .xls files are allowed.'')
            \<and> (\<forall>u\<in>set (uploads (snd (handler w request))). fst (snd u) = data p)
            \<and> (status (fst (handler w request)) = 200 \<longrightarrow>
                 originalFileName (jsonBody (fst (handler w request))) = filename p
               \<and> map (fst \<circ> snd) (uploads (snd (handler w request))) = [data p]))"
proof (intro conjI impI allI)
  assume none: "\<forall>p\<in>set parts. \<not> truthy (filename p)"
  have pp: "process_parts w parts =
              (Inr \<lparr>status = 400, jsonBody = failure ''No file uploaded''\<rparr>, [])"
    using none by (intro process_parts_no_file find_none)
  show "status (fst (handler w request)) = 400"
    and "success (jsonBody (fst (handler w request))) = Some False"
    and "error (jsonBody (fst (handler w request))) = Some ''No file uploaded''"
    and "uploads (snd (handler w request)) = []"
    using handler_parsed [OF assms] pp by (simp_all add: failure_def)
next
  fix pre p post
  assume a: "parts = pre @ p # post \<and> (\<forall>q\<in>set pre. \<not> truthy (filename q))
             \<and> truthy (filename p)"
  then show f: "find (\<lambda>p. truthy (filename p)) parts = Some p"
    by (simp add: find_first)
  show "error (jsonBody (fst (handler w request))) \<noteq> Some ''No file uploaded''"
    by (rule handler_file_error(1) [OF assms f])
  show "\<forall>u\<in>set (uploads (snd (handler w request))). fst (snd u) = data p"
    using handler_parsed(2) [OF assms] uploads_process_parts [OF f, of w] by simp
  {
    assume n: "\<not> isExcelFile (js_string (filename p))"
    show "status (fst (handler w request)) = 400"
      and "error (jsonBody (fst (handler w request)))
             = Some ''Invalid file type. Only .xlsx and .xls files are allowed.''"
      and "uploads (snd (handler w request)) = []"
      using handler_parsed [OF assms] process_parts_invalid_type [OF f n, of w]
      by (simp_all add: failure_def)
  }
  {
    assume x: "isExcelFile (js_string (filename p))"
    show "error (jsonBody (fst (handler w request)))
            \<noteq> Some ''Invalid file type. Only .xlsx and .xls files are allowed.''"
      by (rule handler_file_error(2) [OF assms f x])
  }
  {
    assume ok: "status (fst (handler w request)) = 200"
    show "originalFileName (jsonBody (fst (handler w request))) = filename p"
      and "map (fst \<circ> snd) (uploads (snd (handler w request))) = [data p]"
      using handler_200_file [OF assms f ok] by simp_all
  }
qed

theorem file_selection_witness:
  "parsed ex_world_no_file ex_request ex_no_file
   \<and> list_all (\<lambda>p. \<not> truthy (filename p)) ex_no_file
   \<and> status (fst (handler ex_world_no_file ex_request)) = 400
   \<and> error (jsonBody (fst (handler ex_world_no_file ex_request))) = Some ''No file uploaded''
   \<and> parsed ex_world_two_files ex_request ex_two_files
   \<and> find (\<lambda>p. truthy (filename p)) ex_two_files = Some (file_part ''report.xlsx'' [80, 75, 3, 4])
   \<and> status (fst (handler ex_world_two_files ex_request)) = 200
   \<and> originalFileName (jsonBody (fst (handler ex_world_two_files ex_request)))
       = Some ''report.xlsx''
   \<and> map (fst \<circ> snd) (uploads (snd (handler ex_world_two_files ex_request)))
       = [[80, 75, 3, 4]]
   \<and> parsed ex_world_wrong_first ex_request ex_wrong_first
   \<and> \<not> isExcelFile ''notes.txt''
   \<and> status (fst (handler ex_world_wrong_first ex_request)) = 400
   \<and> error (jsonBody (fst (handler ex_world_wrong_first ex_request)))
       = Some ''Invalid file type. Only .xlsx and .xls files are allowed.''"
proof -
  have p0: "parsed ex_world_no_file ex_request ex_no_file"
    unfolding ex_world_no_file_def by (rule parsed_example)
  have p2: "parsed ex_world_two_files ex_request ex_two_files"
    unfolding ex_world_two_files_def by (rule parsed_example)
  have p3: "parsed ex_world_wrong_first ex_request ex_wrong_first"
    unfolding ex_world_wrong_first_def by (rule parsed_example)
  have none: "\<forall>p\<in>set ex_no_file. \<not> truthy (filename p)"
    by (simp add: ex_no_file_def field_part_def truthy_def)
  have nf: "\<forall>q\<in>set ex_fields. \<not> truthy (filename q)"
    by (simp add: ex_fields_def field_part_def truthy_def)
  have t: "truthy (filename (file_part f v))" if "f \<noteq> []" for f v
    using that by (simp add: file_part_def truthy_def)
  have d2: "ex_two_files =
              ex_fields @ file_part ''report.xlsx'' [80, 75, 3, 4]
                # [file_part ''second.xls'' [208, 207]]"
    by (simp add: ex_two_files_def)
  have d3: "ex_wrong_first =
              ex_fields @ file_part ''notes.txt'' [104, 105]
                # [file_part ''report.xlsx'' [80, 75, 3, 4]]"
    by (simp add: ex_wrong_first_def)
  have x: "\<not> isExcelFile ''notes.txt''"
    by code_simp
  have ok: "status (fst (handler ex_world_two_files ex_request)) = 200"
    by (rule ex_two_files_200)
  have a: "status (fst (handler ex_world_no_file ex_request)) = 400
         \<and> error (jsonBody (fst (handler ex_world_no_file ex_request)))
             = Some ''No file uploaded''"
    using file_selection [OF p0, THEN conjunct1, THEN mp, OF none] by simp
  note b = file_selection [OF p2, THEN conjunct2, THEN spec, THEN spec, THEN spec, THEN mp,
      of ex_fields "file_part ''report.xlsx'' [80, 75, 3, 4]"
         "[file_part ''second.xls'' [208, 207]]", OF conjI [OF d2 conjI [OF nf t]]]
  note c = file_selection [OF p3, THEN conjunct2, THEN spec, THEN spec, THEN spec, THEN mp,
      of ex_fields "file_part ''notes.txt'' [104, 105]"
         "[file_part ''report.xlsx'' [80, 75, 3, 4]]", OF conjI [OF d3 conjI [OF nf t]]]
  have b': "find (\<lambda>p. truthy (filename p)) ex_two_files
              = Some (file_part ''report.xlsx'' [80, 75, 3, 4])
          \<and> originalFileName (jsonBody (fst (handler ex_world_two_files ex_request)))
              = Some ''report.xlsx''
          \<and> map (fst \<circ> snd) (uploads (snd (handler ex_world_two_files ex_request)))
              = [[80, 75, 3, 4]]"
    using b ok by (simp add: file_part_def)
  have c': "status (fst (handler ex_world_wrong_first ex_request)) = 400
          \<and> error (jsonBody (fst (handler ex_world_wrong_first ex_request)))
              = Some ''Invalid file type. Only .xlsx and .xls files are allowed.''"
    using c x by (simp add: file_part_def js_string_def)
  show ?thesis
    using p0 p2 p3 none a b' c' x ok by (simp add: list_all_iff)
qed

text \<open>
  Claim C3. When the file part that the handler selected has a name that the test
  \<^verbatim>\<open>/\.(xlsx|xls)$/i\<close> rejects, the answer is status 400, \<^verbatim>\<open>success: false\<close> and the
  error ``Invalid file type. Only .xlsx and .xls files are allowed.'', and nothing is
  uploaded.
\<close>

theorem invalid_file_type:
  assumes "parsed w request parts"
      and "find (\<lambda>p. truthy (filename p)) parts = Some filePart"
      and "\<not> isExcelFile (js_string (filename filePart))"
  shows "status (fst (handler w request)) = 400
       \<and> success (jsonBody (fst (handler w request))) = Some False
       \<and> error (jsonBody (fst (handler w request)))
           = Some ''Invalid file type. Only .xlsx and .xls files are allowed.''
       \<and> uploads (snd (handler w request)) = []"
  using handler_parsed [OF assms(1)] process_parts_invalid_type [OF assms(2,3), of w]
  by (simp add: failure_def)

theorem invalid_file_type_witness:
  "find (\<lambda>p. truthy (filename p)) ex_text_file = Some (file_part ''notes.txt'' [104, 105])
   \<and> \<not> isExcelFile ''notes.txt''
   \<and> status (fst (handler (ex_world\<lparr>Parse := \<lambda>b s. Inr ex_text_file\<rparr>) ex_request)) = 400
   \<and> error (jsonBody (fst (handler (ex_world\<lparr>Parse := \<lambda>b s. Inr ex_text_file\<rparr>) ex_request)))
       = Some ''Invalid file type. Only .xlsx and .xls files are allowed.''
   \<and> uploads (snd (handler (ex_world\<lparr>Parse := \<lambda>b s. Inr ex_text_file\<rparr>) ex_request)) = []"
proof -
  have f: "find (\<lambda>p. truthy (filename p)) ex_text_file = Some (file_part ''notes.txt'' [104, 105])"
    by (simp add: ex_text_file_def find_fields) (simp add: file_part_def truthy_def)
  have x: "\<not> isExcelFile ''notes.txt''"
    by code_simp
  have x': "\<not> isExcelFile (js_string (filename (file_part ''notes.txt'' [104, 105])))"
    using x by (simp add: file_part_def js_string_def)
  show ?thesis
    using invalid_file_type [OF parsed_example f x'] f x by simp
qed

subsection \<open>The metadata fields and the required fields\<close>




text \<open>
  Claim C2, as amended. Let the request be parsed, and let some required key be absent from
  the metadata fields or bound to a blank value. Then the answer is status 400 with
  \<^verbatim>\<open>success: false\<close>, and nothing is uploaded. When moreover some part has a filename
  and the first such part, which is the one the handler selects, is named as a spreadsheet,
  the error is ``Missing required fields'' and \<^verbatim>\<open>missingFields\<close> is the list of the
  required keys that are absent or blank, in the order of \<^verbatim>\<open>requiredFields\<close>. (With no
  such part, or with a first one of another type, the answer is the error of that check,
  without the list.)
\<close>

theorem missing_required_fields:
  assumes "parsed w request parts"
      and "flds = collect_fields (toString w) parts"
      and "missing =
             filter (\<lambda>k. case flds k of None \<Rightarrow> True | Some v \<Rightarrow> blank v) requiredFields"
      and "missing \<noteq> []"
  shows "status (fst (handler w request)) = 400
       \<and> success (jsonBody (fst (handler w request))) = Some False
       \<and> uploads (snd (handler w request)) = []
       \<and> (\<forall>filePart.
            find (\<lambda>p. truthy (filename p)) parts = Some filePart
            \<and> isExcelFile (js_string (filename filePart)) \<longrightarrow>
              error (jsonBody (fst (handler w request))) = Some ''Missing required fields''
            \<and> missingFields (jsonBody (fst (handler w request))) = Some missing)"
proof -
  have m: "filter (field_missing (collect_fields (toString w) parts)) requiredFields = missing"
    using assms(2,3) by (simp add: missing_eq)
  note h = handler_parsed [OF assms(1)]
  show ?thesis
  proof (cases "find (\<lambda>p. truthy (filename p)) parts")
    case None
    then show ?thesis
      using h process_parts_no_file [OF None, of w] by (simp add: failure_def)
  next
    case (Some filePart)
    show ?thesis
    proof (cases "isExcelFile (js_string (filename filePart))")
      case False
      then show ?thesis
        using h process_parts_invalid_type [OF Some False, of w] Some by (simp add: failure_def)
    next
      case True
      have "filter (field_missing (collect_fields (toString w) parts)) requiredFields \<noteq> []"
        using m assms(4) by simp
      from process_parts_missing [OF Some True this] show ?thesis
        using h m Some by (simp add: failure_def)
    qed
  qed
qed

theorem missing_required_fields_witness:
  "parsed ex_world_incomplete ex_request ex_incomplete
   \<and> status (fst (handler ex_world_incomplete ex_request)) = 400
   \<and> success (jsonBody (fst (handler ex_world_incomplete ex_request))) = Some False
   \<and> error (jsonBody (fst (handler ex_world_incomplete ex_request)))
       = Some ''Missing required fields''
   \<and> missingFields (jsonBody (fst (handler ex_world_incomplete ex_request)))
       = Some [''business_unit'', ''location'', ''time_period'', ''esg_topic'', ''esg_metric'',
               ''unit'']
   \<and> uploads (snd (handler ex_world_incomplete ex_request)) = []"
proof -
  have p: "parsed ex_world_incomplete ex_request ex_incomplete"
    unfolding ex_world_incomplete_def by (rule parsed_example)
  have t: "toString ex_world_incomplete = ascii"
    by (simp add: ex_world_incomplete_def ex_world_def)
  have m: "filter (\<lambda>k. case collect_fields (toString ex_world_incomplete) ex_incomplete k of
                         None \<Rightarrow> True | Some v \<Rightarrow> blank v) requiredFields
           = [''business_unit'', ''location'', ''time_period'', ''esg_topic'', ''esg_metric'',
              ''unit'']"
    using ex_missing by (simp only: t missing_eq)
  have n: "filter (\<lambda>k. case collect_fields (toString ex_world_incomplete) ex_incomplete k of
                         None \<Rightarrow> True | Some v \<Rightarrow> blank v) requiredFields \<noteq> []"
    unfolding m by simp
  have f: "find (\<lambda>p. truthy (filename p)) ex_incomplete
             = Some (file_part ''report.xlsx'' [80, 75, 3, 4])"
    by (simp add: ex_incomplete_def field_part_def file_part_def truthy_def)
  have x: "isExcelFile (js_string (filename (file_part ''report.xlsx'' [80, 75, 3, 4])))"
    by code_simp
  note th = missing_required_fields [OF p refl refl n]
  show ?thesis
    using th [THEN conjunct1] th [THEN conjunct2, THEN conjunct1]
      th [THEN conjunct2, THEN conjunct2, THEN conjunct1]
      th [THEN conjunct2, THEN conjunct2, THEN conjunct2, THEN spec, THEN mp, OF conjI, OF f x]
      p
    by (simp only: m)
qed

text \<open>
  The list of the missing fields is not in every answer to a parsed request that lacks a
  required field: a form with the company alone and no file is answered with ``No file
  uploaded'' and no \<^verbatim>\<open>missingFields\<close>, though six required keys are absent.
\<close>

theorem missing_fields_without_file:
  "parsed ex_world_no_file ex_request ex_no_file
   \<and> filter (field_missing (collect_fields (toString ex_world_no_file) ex_no_file))
        requiredFields
       = [''business_unit'', ''location'', ''time_period'', ''esg_topic'', ''esg_metric'',
          ''unit'']
   \<and> status (fst (handler ex_world_no_file ex_request)) = 400
   \<and> error (jsonBody (fst (handler ex_world_no_file ex_request))) = Some ''No file uploaded''
   \<and> missingFields (jsonBody (fst (handler ex_world_no_file ex_request))) = None"
proof -
  have p: "parsed ex_world_no_file ex_request ex_no_file"
    unfolding ex_world_no_file_def by (rule parsed_example)
  have t: "toString ex_world_no_file = ascii"
    by (simp add: ex_world_no_file_def ex_world_def)
  have f: "find (\<lambda>p. truthy (filename p)) ex_no_file = None"
    by (simp add: ex_no_file_def field_part_def truthy_def)
  show ?thesis
    using p handler_parsed(1) [OF p] process_parts_no_file [OF f, of ex_world_no_file]
      ex_missing_no_file
    by (simp add: t failure_def)
qed

subsection \<open>The connection string\<close>




subsection \<open>The upload\<close>

text \<open>
  Claim C1, as amended. Take a parsed request with one file part, named as a spreadsheet,
  and with the seven required fields present and not blank. When a connection string is
  found and the blob store accepts the calls, the handler issues exactly one upload call,
  with the bytes of the file part, and answers with status 200 and \<^verbatim>\<open>success: true\<close>.
  The \<^verbatim>\<open>metadata\<close> of the answer is the object of the fields. Its keys are names of
  submitted form fields, and every submitted name other than \<^verbatim>\<open>__proto__\<close> is bound in
  it to the text of the last field submitted under that name, unchanged; when no name is
  submitted twice, that is every submitted name and value. The metadata of the upload call
  holds every one of these fields with the same value.
\<close>

theorem valid_upload:
  assumes "parsed w request parts"
      and "file_parts parts = [filePart]"
      and "isExcelFile (js_string (filename filePart))"
      and "flds = collect_fields (toString w) parts"
      and "fields_complete flds"
      and "resolve_connectionString w = (Inr connectionString, calls)"
      and "truthy connectionString"
      and "fromConnectionString w connectionString = Inr ()"
      and "createIfNotExists w containerName = Inr ()"
      and "fname = js_string (filename filePart)"
      and "blobName = uniqueFilename flds (now w 0) fname"
      and "blobMetadata =
             spread [''originalFilename'' \<mapsto> fname,
                     ''uploadedAt'' \<mapsto> toISOString (now w 1)] flds"
      and "uploadData w blobName (data filePart) (fileContentType (split_pop fname)) blobMetadata
             = Inr ()"
  shows "status (fst (handler w request)) = 200
       \<and> success (jsonBody (fst (handler w request))) = Some True
       \<and> uploads (snd (handler w request))
           = [(blobName, data filePart, fileContentType (split_pop fname), blobMetadata)]
       \<and> metadata (jsonBody (fst (handler w request))) = Some flds
       \<and> dom flds \<subseteq> fst ` set (form_fields (toString w) parts)
       \<and> (\<forall>k. k \<noteq> ''__proto__'' \<longrightarrow>
            flds k = map_of (rev (form_fields (toString w) parts)) k)
       \<and> (distinct (map fst (form_fields (toString w) parts)) \<longrightarrow>
            (\<forall>kv\<in>set (form_fields (toString w) parts).
               fst kv \<noteq> ''__proto__'' \<longrightarrow> flds (fst kv) = Some (snd kv)))
       \<and> (\<forall>k v. flds k = Some v \<longrightarrow> blobMetadata k = Some v)"
proof -
  have v: "valid_submission w request parts filePart"
    using assms(1,3,5) find_filter_single [OF assms(2) [unfolded file_parts_def]]
    by (simp add: valid_submission_def assms(4))
  note h = handler_upload_ok [OF v assms(6,7,8,9)
      assms(13) [unfolded assms(11,12) assms(10) assms(4)]]
  have e: "\<forall>kv\<in>set (form_fields (toString w) parts).
             fst kv \<noteq> ''__proto__'' \<longrightarrow> flds (fst kv) = Some (snd kv)"
    if "distinct (map fst (form_fields (toString w) parts))"
    using collect_fields_echo [OF that] by (auto simp: assms(4))
  have m: "\<forall>k v. flds k = Some v \<longrightarrow> blobMetadata k = Some v"
    by (simp add: assms(12) spread_keeps)
  have d: "dom flds \<subseteq> fst ` set (form_fields (toString w) parts)"
    by (auto simp: assms(4) dom_collect_fields)
  show ?thesis
    using h e m d
    by (simp add: assms(4,10,11,12) collect_fields_lookup)
qed

theorem valid_upload_witness:
  "parsed ex_world ex_request ex_parts
   \<and> file_parts ex_parts = [file_part ''report.xlsx'' [80, 75, 3, 4]]
   \<and> isExcelFile ''report.xlsx''
   \<and> fields_complete (collect_fields ascii ex_parts)
   \<and> status (fst (handler ex_world ex_request)) = 200
   \<and> success (jsonBody (fst (handler ex_world ex_request))) = Some True
   \<and> uploads (snd (handler ex_world ex_request)) =
       [(''ACME_2025-06-26T22-09-19-000Z.xlsx'', [80, 75, 3, 4],
         ''application/vnd.openxmlformats-officedocument.spreadsheetml.sheet'',
         spread [''originalFilename'' \<mapsto> ''report.xlsx'',
                 ''uploadedAt'' \<mapsto> ''2025-06-26T22:09:19.001Z'']
           (map_of
              [(''company'', ''ACME''), (''business_unit'', ''IT''), (''location'', ''NY''),
               (''time_period'', ''2024''), (''esg_topic'', ''E''), (''esg_metric'', ''F''),
               (''unit'', ''kWh'')]))]
   \<and> metadata (jsonBody (fst (handler ex_world ex_request))) =
       Some (map_of
              [(''company'', ''ACME''), (''business_unit'', ''IT''), (''location'', ''NY''),
               (''time_period'', ''2024''), (''esg_topic'', ''E''), (''esg_metric'', ''F''),
               (''unit'', ''kWh'')])"
proof -
  have p: "parsed ex_world ex_request ex_parts"
    using ex_valid by (simp add: valid_submission_def)
  have o: "file_parts ex_parts = [file_part ''report.xlsx'' [80, 75, 3, 4]]"
    by (simp add: file_parts_def ex_parts_def ex_fields_def field_part_def file_part_def
        truthy_def)
  have x: "isExcelFile ''report.xlsx''"
    by code_simp
  have r: "resolve_connectionString ex_world = (Inr (Some ''UseDevelopmentStorage=true''), [])"
    by (simp add: resolve_connectionString_def ex_world_def truthy_def)
  have t: "truthy (Some ''UseDevelopmentStorage=true'')"
    by (simp add: truthy_def)
  have f: "js_string (filename (file_part ''report.xlsx'' [80, 75, 3, 4])) = ''report.xlsx''"
    "data (file_part ''report.xlsx'' [80, 75, 3, 4]) = [80, 75, 3, 4]"
    by (simp_all add: file_part_def js_string_def)
  have e1: "uniqueFilename
              (map_of
                 [(''company'', ''ACME''), (''business_unit'', ''IT''), (''location'', ''NY''),
                  (''time_period'', ''2024''), (''esg_topic'', ''E''), (''esg_metric'', ''F''),
                  (''unit'', ''kWh'')]) (ex_date 0) ''report.xlsx''
            = ''ACME_2025-06-26T22-09-19-000Z.xlsx''"
    by code_simp
  have e2: "fileContentType (split_pop ''report.xlsx'')
            = ''application/vnd.openxmlformats-officedocument.spreadsheetml.sheet''"
    by code_simp
  have e3: "toISOString (ex_date 1) = ''2025-06-26T22:09:19.001Z''"
    by code_simp
  have c: "fromConnectionString ex_world (Some ''UseDevelopmentStorage=true'') = Inr ()"
    "createIfNotExists ex_world containerName = Inr ()"
    "\<And>k b t m. uploadData ex_world k b t m = Inr ()"
    by (simp_all add: ex_world_def)
  have fc: "fields_complete (collect_fields (toString ex_world) ex_parts)"
    using ex_complete by (simp add: ex_toString)
  have x': "isExcelFile (js_string (filename (file_part ''report.xlsx'' [80, 75, 3, 4])))"
    using x by (simp add: f)
  note th = valid_upload [OF p o x' refl fc r t c(1,2) refl refl refl c(3)]
  show ?thesis
    using th [THEN conjunct1] th [THEN conjunct2, THEN conjunct1]
      th [THEN conjunct2, THEN conjunct2, THEN conjunct1]
      th [THEN conjunct2, THEN conjunct2, THEN conjunct2, THEN conjunct1]
      p o x ex_complete
    by (simp only: ex_toString ex_now ex_collect f e1 e2 e3)
qed

text \<open>
  A valid submission alone does not give status 200: with no connection string in the
  environment and no local settings file, the same request is answered with status 500 and
  nothing is uploaded. And where the upload succeeds, not every submitted field is in the
  metadata of the answer: a field submitted under the name \<^verbatim>\<open>__proto__\<close> is not.
\<close>

theorem valid_upload_without_credential:
  "parsed ex_world_no_credential ex_request ex_parts
   \<and> file_parts ex_parts = [file_part ''report.xlsx'' [80, 75, 3, 4]]
   \<and> isExcelFile ''report.xlsx''
   \<and> fields_complete (collect_fields (toString ex_world_no_credential) ex_parts)
   \<and> status (fst (handler ex_world_no_credential ex_request)) = 500
   \<and> success (jsonBody (fst (handler ex_world_no_credential ex_request))) = Some False
   \<and> uploads (snd (handler ex_world_no_credential ex_request)) = []
   \<and> parsed ex_world_with_proto ex_request ex_with_proto
   \<and> file_parts ex_with_proto
       = [file_part ''report.xlsx'' [80, 75, 3, 4]]
   \<and> fields_complete (collect_fields (toString ex_world_with_proto) ex_with_proto)
   \<and> (''__proto__'', ''x'') \<in> set (form_fields (toString ex_world_with_proto) ex_with_proto)
   \<and> status (fst (handler ex_world_with_proto ex_request)) = 200
   \<and> metadata (jsonBody (fst (handler ex_world_with_proto ex_request)))
       = Some (collect_fields ascii ex_with_proto)
   \<and> collect_fields ascii ex_with_proto ''__proto__'' = None"
proof -
  have v: "valid_submission ex_world_no_credential ex_request ex_parts
             (file_part ''report.xlsx'' [80, 75, 3, 4])"
    using ex_valid
    by (simp add: ex_world_no_credential_def
        valid_submission_cong [of "ex_world\<lparr>env_AzureWebJobsStorage := None\<rparr>" ex_world])
  have o: "file_parts ex_parts = [file_part ''report.xlsx'' [80, 75, 3, 4]]"
    by (simp add: file_parts_def ex_parts_def ex_fields_def field_part_def file_part_def
        truthy_def)
  have x: "isExcelFile ''report.xlsx''"
    by code_simp
  have e: "\<not> truthy (env_AzureWebJobsStorage ex_world_no_credential)"
    by (simp add: ex_world_no_credential_def truthy_def)
  have n: "\<not> existsSync ex_world_no_credential"
    by (simp add: ex_world_no_credential_def ex_world_def)
  have first: "parsed ex_world_no_credential ex_request ex_parts
   \<and> file_parts ex_parts = [file_part ''report.xlsx'' [80, 75, 3, 4]]
   \<and> isExcelFile ''report.xlsx''
   \<and> fields_complete (collect_fields (toString ex_world_no_credential) ex_parts)
   \<and> status (fst (handler ex_world_no_credential ex_request)) = 500
   \<and> success (jsonBody (fst (handler ex_world_no_credential ex_request))) = Some False
   \<and> uploads (snd (handler ex_world_no_credential ex_request)) = []"
    using handler_no_connection_string [OF v e disjI1 [OF n]] v o x
    by (simp add: valid_submission_def)
  have p: "parsed ex_world_with_proto ex_request ex_with_proto"
    unfolding ex_world_with_proto_def by (rule parsed_example)
  have o': "file_parts ex_with_proto
              = [file_part ''report.xlsx'' [80, 75, 3, 4]]"
    using o by (simp add: file_parts_def ex_with_proto_def field_part_def truthy_def)
  have t: "toString ex_world_with_proto = ascii"
    by (simp add: ex_world_with_proto_def ex_world_def)
  have c: "fields_complete (collect_fields ascii ex_with_proto)"
    by code_simp
  have m: "(''__proto__'', ''x'') \<in> set (form_fields ascii ex_with_proto)"
    by code_simp
  note ok = ex_upload_ok [OF find_filter_single [OF o' [unfolded file_parts_def]] c,
      folded ex_world_with_proto_def]
  show ?thesis
    using first p o' c m ok collect_fields_proto [of ascii ex_with_proto]
    by (simp only: t)
qed

text \<open>
  Claim C5, as amended. When the handler has issued an upload call and the blob store
  client threw on it, the handler of \<^verbatim>\<open>src/api/storage/_index.js\<close> answers with status
  500, \<^verbatim>\<open>success: false\<close>, the error ``Internal server error'' and the message of the
  exception in \<^verbatim>\<open>details\<close>. The handler of \<^verbatim>\<open>src/api/index.js\<close> answers with status
  500, the error ``Failed to upload file'' and the message of the exception in
  \<^verbatim>\<open>details\<close>; its body has no \<^verbatim>\<open>success\<close> key.
\<close>

theorem upload_failure:
  assumes "uploadData w k b t m = Inl e"
  shows "(UploadData k b t m \<in> set (snd (handler w request)) \<longrightarrow>
            status (fst (handler w request)) = 500
          \<and> success (jsonBody (fst (handler w request))) = Some False
          \<and> error (jsonBody (fst (handler w request))) = Some ''Internal server error''
          \<and> details (jsonBody (fst (handler w request))) = Some (exn_message e))
       \<and> (UploadData k b t m \<in> set (snd (index_handler w request)) \<longrightarrow>
            fst (index_handler w request)
              = Inr \<lparr>index_status = 500,
                     index_body = Inr
                       \<lparr>success = None, error = Some ''Failed to upload file'',
                        details = Some (exn_message e), missingFields = None, message = None,
                        fileName = None, originalFileName = None, url = None,
                        metadata = None, uploadedAt = None\<rparr>\<rparr>)"
proof (intro conjI impI)
  assume u: "UploadData k b t m \<in> set (snd (handler w request))"
  obtain r calls where h: "handler_try w request = (r, calls)"
    by (cases "handler_try w request")
  have "snd (handler w request) = calls"
    using h by (simp add: handler_def split: sum.splits)
  with u have "r = Inl e"
    using handler_try_throws [OF h _ assms] by simp
  then have "fst (handler w request) = internal_error e"
    using h by (simp add: handler_def)
  then show "status (fst (handler w request)) = 500"
    and "success (jsonBody (fst (handler w request))) = Some False"
    and "error (jsonBody (fst (handler w request))) = Some ''Internal server error''"
    and "details (jsonBody (fst (handler w request))) = Some (exn_message e)"
    by (simp_all add: internal_error_def failure_def)
next
  assume u: "UploadData k b t m \<in> set (snd (index_handler w request))"
  then show "fst (index_handler w request)
              = Inr \<lparr>index_status = 500,
                     index_body = Inr
                       \<lparr>success = None, error = Some ''Failed to upload file'',
                        details = Some (exn_message e), missingFields = None, message = None,
                        fileName = None, originalFileName = None, url = None,
                        metadata = None, uploadedAt = None\<rparr>\<rparr>"
    using assms
    by (auto simp: index_handler_def Let_def split: if_splits sum.splits option.splits prod.splits
        dest: index_upload_throws)
qed

theorem upload_failure_witness:
  "status (fst (handler ex_world_store_down ex_request)) = 500
   \<and> success (jsonBody (fst (handler ex_world_store_down ex_request))) = Some False
   \<and> details (jsonBody (fst (handler ex_world_store_down ex_request)))
       = Some ''quota exceeded''
   \<and> fst (index_handler ex_world_store_down ex_request)
       = Inr \<lparr>index_status = 500,
              index_body = Inr
                \<lparr>success = None, error = Some ''Failed to upload file'',
                 details = Some ''quota exceeded'', missingFields = None, message = None,
                 fileName = None, originalFileName = None, url = None,
                 metadata = None, uploadedAt = None\<rparr>\<rparr>"
proof -
  have r: "resolve_connectionString ex_world_store_down
             = (Inr (Some ''UseDevelopmentStorage=true''), [])"
    by (simp add: resolve_connectionString_def ex_world_store_down_def ex_world_def truthy_def)
  have t: "truthy (Some ''UseDevelopmentStorage=true'')"
    by (simp add: truthy_def)
  have c: "fromConnectionString ex_world_store_down (Some ''UseDevelopmentStorage=true'') = Inr ()"
    "createIfNotExists ex_world_store_down containerName = Inr ()"
    by (simp_all add: ex_world_store_down_def ex_world_def)
  have u: "\<And>k b t m. uploadData ex_world_store_down k b t m = Inl (Error ''quota exceeded'')"
    by (simp add: ex_world_store_down_def)
  note issued = handler_upload_issued [OF ex_valid_store_down r t c]
  note i = ex_index_calls
  show ?thesis
    using upload_failure [OF u, THEN conjunct1, THEN mp, OF issued]
      upload_failure [OF u, THEN conjunct2, THEN mp, OF i]
    by simp
qed

text \<open>
  The answer of \<^verbatim>\<open>src/api/index.js\<close> to a failed upload: status 500 and the message in
  \<^verbatim>\<open>details\<close>, with no \<^verbatim>\<open>success\<close> key in the body.
\<close>

theorem upload_failure_without_success_flag:
  "uploadData ex_world_store_down ''report.xlsx'' [80, 75, 3, 4] ''application/octet-stream'' Map.empty
     = Inl (Error ''quota exceeded'')
   \<and> UploadData ''report.xlsx'' [80, 75, 3, 4] ''application/octet-stream'' Map.empty
       \<in> set (snd (index_handler ex_world_store_down ex_request))
   \<and> fst (index_handler ex_world_store_down ex_request)
       = Inr \<lparr>index_status = 500,
              index_body = Inr
                \<lparr>success = None, error = Some ''Failed to upload file'',
                 details = Some ''quota exceeded'', missingFields = None, message = None,
                 fileName = None, originalFileName = None, url = None,
                 metadata = None, uploadedAt = None\<rparr>\<rparr>"
proof -
  have p: "parsed ex_world_store_down ex_request ex_parts"
    using ex_valid_store_down by (simp add: valid_submission_def)
  have f: "find (\<lambda>p. truthy (filename p)) ex_parts
             = Some (file_part ''report.xlsx'' [80, 75, 3, 4])"
    using ex_valid_store_down by (simp add: valid_submission_def)
  have u: "uploadData ex_world_store_down ''report.xlsx'' [80, 75, 3, 4]
             ''application/octet-stream'' Map.empty = Inl (Error ''quota exceeded'')"
    by (simp add: ex_world_store_down_def)
  have "fst (index_upload ex_world_store_down (file_part ''report.xlsx'' [80, 75, 3, 4])
               (index_collect_fields (toString ex_world_store_down) ex_parts))
          = Inl (Error ''quota exceeded'')"
    by (simp add: index_upload_def ex_world_store_down_def ex_world_def)
  then have "fst (index_handler ex_world_store_down ex_request)
       = Inr \<lparr>index_status = 500,
              index_body = Inr
                \<lparr>success = None, error = Some ''Failed to upload file'',
                 details = Some ''quota exceeded'', missingFields = None, message = None,
                 fileName = None, originalFileName = None, url = None,
                 metadata = None, uploadedAt = None\<rparr>\<rparr>"
    using index_handler_parsed(1) [OF p f surjective_pairing] by simp
  then show ?thesis
    using u ex_index_calls by simp
qed

subsection \<open>The storage key\<close>



end
